theory Spec2Isabelle
  imports Complex_Main "HOL-Library.Multiset"
begin

section \<open>Python values\<close>

text \<open>
  Python \<open>str\<close> values are modelled as \<^typ>\<open>string\<close> holding the UTF-8 bytes of the
  text; \<open>codepoints\<close> recovers the characters Python's \<open>len\<close>, slicing and unpacking
  count. The values found in the provider's JSON films and in the bot's state are
  \<open>null\<close>, booleans, integers and strings; a dict is an association list read with
  \<open>dict_get\<close> (Python's \<open>d.get(k, default)\<close>).
\<close>

datatype pyval = PNone | PBool bool | PInt int | PStr string

type_synonym pydict = "(string \<times> pyval) list"

datatype py_exception =
  ClientError | TimeoutError | ValueError | TypeError | RuntimeError
  | AttributeError | OtherError

definition dict_get :: "pydict \<Rightarrow> string \<Rightarrow> pyval \<Rightarrow> pyval" where
  "dict_get d k dflt = (case map_of d k of None \<Rightarrow> dflt | Some v \<Rightarrow> v)"

definition dict_has :: "pydict \<Rightarrow> string \<Rightarrow> bool" where
  "dict_has d k = (map_of d k \<noteq> None)"

fun truthy :: "pyval \<Rightarrow> bool" where
  "truthy PNone = False"
| "truthy (PBool b) = b"
| "truthy (PInt i) = (i \<noteq> 0)"
| "truthy (PStr s) = (s \<noteq> [])"

fun digits :: "nat \<Rightarrow> string" where
  "digits n =
     (if n < 10 then [''0123456789'' ! n]
      else digits (n div 10) @ [''0123456789'' ! (n mod 10)])"

declare digits.simps [simp del]

definition str_int :: "int \<Rightarrow> string" where
  "str_int i = (if i < 0 then CHR ''-'' # digits (nat (- i)) else digits (nat i))"

text \<open>What an f-string writes for \<open>{v}\<close>.\<close>

fun py_format :: "pyval \<Rightarrow> string" where
  "py_format PNone = ''None''"
| "py_format (PBool b) = (if b then ''True'' else ''False'')"
| "py_format (PInt i) = str_int i"
| "py_format (PStr s) = s"

text \<open>The slice \<open>xs[:n]\<close>: a negative \<open>n\<close> counts from the end.\<close>

definition py_slice_to :: "'a list \<Rightarrow> int \<Rightarrow> 'a list" where
  "py_slice_to xs n =
     (if 0 \<le> n then take (nat n) xs else take (length xs - nat (- n)) xs)"

definition is_cont :: "char \<Rightarrow> bool" where
  "is_cont c = (128 \<le> (of_char c :: nat) \<and> (of_char c :: nat) < 192)"

function codepoints :: "string \<Rightarrow> string list" where
  "codepoints [] = []"
| "codepoints (c # cs) = (c # takeWhile is_cont cs) # codepoints (dropWhile is_cont cs)"
  by pat_completeness auto
termination
  by (relation "measure length") (auto simp: length_dropWhile_le less_Suc_eq_le)

definition py_len :: "string \<Rightarrow> int" where
  "py_len s = int (length (codepoints s))"

definition str_slice_to :: "string \<Rightarrow> int \<Rightarrow> string" where
  "str_slice_to s n = concat (py_slice_to (codepoints s) n)"

text \<open>\<open>html.escape(s)\<close> with its default \<open>quote=True\<close>.\<close>

fun escape_char :: "char \<Rightarrow> string" where
  "escape_char c =
     (if c = CHR ''&'' then ''&amp;''
      else if c = CHR ''<'' then ''&lt;''
      else if c = CHR ''>'' then ''&gt;''
      else if c = CHR 0x22 then ''&quot;''
      else if c = CHR 0x27 then ''&#x27;''
      else [c])"

definition html_escape :: "string \<Rightarrow> string" where
  "html_escape s = concat (map escape_char s)"

text \<open>
  Library functions the code calls on strings: Python's \<open>str.lower\<close> and \<open>str.strip\<close>
  and fuzzywuzzy's \<open>fuzz.ratio\<close>. They are parameters of the model.
\<close>

record pylib =
  lower :: "string \<Rightarrow> string"
  strip :: "string \<Rightarrow> string"
  fuzz_ratio :: "string \<Rightarrow> string \<Rightarrow> int"

section \<open>cinema\_bot.py: the pagination keyboard\<close>

record InlineKeyboardButton =
  btn_text :: string
  callback_data :: string

type_synonym InlineKeyboardMarkup = "InlineKeyboardButton list list"

definition LEFT_ARROW :: string where
  "LEFT_ARROW = [CHR 0xE2, CHR 0x97, CHR 0x80, CHR 0xEF, CHR 0xB8, CHR 0x8F]"

definition RIGHT_ARROW :: string where
  "RIGHT_ARROW = [CHR 0xE2, CHR 0x96, CHR 0xB6, CHR 0xEF, CHR 0xB8, CHR 0x8F]"

definition create_pagination_keyboard ::
  "int \<Rightarrow> int \<Rightarrow> string \<Rightarrow> InlineKeyboardMarkup option" where
  "create_pagination_keyboard page total_pages prefix =
     (let keyboard = [];
          row = [];
          row = (if page > 0
                 then row @ [\<lparr>btn_text = LEFT_ARROW, callback_data = prefix @ ''_prev''\<rparr>]
                 else row);
          row = (if page < total_pages - 1
                 then row @ [\<lparr>btn_text = RIGHT_ARROW, callback_data = prefix @ ''_next''\<rparr>]
                 else row);
          keyboard = (if row \<noteq> [] then keyboard @ [row] else keyboard)
      in if keyboard \<noteq> [] then Some keyboard else None)"

section \<open>movie\_searcher.py\<close>

definition BASE_KINOPOISKAPI_URL :: string where
  "BASE_KINOPOISKAPI_URL =
     ''https://kinopoiskapiunofficial.tech/api/v2.1/films/search-by-keyword''"

definition BASE_SSPOISK_URL :: string where
  "BASE_SSPOISK_URL = ''https://sspoisk.ru/''"

definition FILMIX_SEARCH_URL :: string where
  "FILMIX_SEARCH_URL = ''https://filmix.date/engine/ajax/sphinx_search.php''"

definition MOVIE_FILMIX_URL :: string where
  "MOVIE_FILMIX_URL = ''https://filmix.date/play/''"

definition FILM_NOT_FOUND :: string where
  "FILM_NOT_FOUND =
     [CHR 0xD0, CHR 0xA4, CHR 0xD0, CHR 0xB8, CHR 0xD0, CHR 0xBB, CHR 0xD1,
      CHR 0x8C, CHR 0xD0, CHR 0xBC, CHR 0x20, CHR 0xD0, CHR 0xBD, CHR 0xD0,
      CHR 0xB5, CHR 0x20, CHR 0xD0, CHR 0xBD, CHR 0xD0, CHR 0xB0, CHR 0xD0,
      CHR 0xB9, CHR 0xD0, CHR 0xB4, CHR 0xD0, CHR 0xB5, CHR 0xD0, CHR 0xBD,
      CHR 0x21]"

record MovieSearcher =
  kinopoisk_unofficial_api_key :: string
  links_cap :: int
  movie_cap :: int

text \<open>
  The constructor: \<open>None\<close> or an empty key, or a missing logger, raises \<open>ValueError\<close>.
\<close>

definition MovieSearcher_init ::
  "string option \<Rightarrow> int \<Rightarrow> int \<Rightarrow> bool \<Rightarrow> py_exception + MovieSearcher" where
  "MovieSearcher_init api_key lcap mcap has_logger =
     (case api_key of
        None \<Rightarrow> Inl ValueError
      | Some k \<Rightarrow>
          if k = [] then Inl ValueError
          else if \<not> has_logger then Inl ValueError
          else Inr \<lparr>kinopoisk_unofficial_api_key = k, links_cap = lcap, movie_cap = mcap\<rparr>)"

text \<open>
  What the network gives back. A request either raises (\<open>Inl\<close>) or yields a response
  with a status and a body; \<open>response.json()\<close> either raises or yields an object, of
  which the model keeps the value under \<open>"films"\<close> (\<open>None\<close> when the key is absent).
\<close>

datatype json_result = BadBody py_exception | JsonObject "pydict list option"

record http_response =
  status :: int
  json_body :: json_result

text \<open>What the code does to the outside world, in order.\<close>

datatype event =
  HttpGet string string
  | HttpPost string string
  | Sleep_ms nat
  | LogError string
  | LogException

definition fetch_movies ::
  "MovieSearcher \<Rightarrow> string \<Rightarrow> py_exception + http_response \<Rightarrow>
   py_exception + http_response \<Rightarrow> event list \<times> (py_exception + pydict list)" where
  "fetch_movies self query resp retry_resp =
     (case resp of
        Inl e \<Rightarrow> ([HttpGet BASE_KINOPOISKAPI_URL query, LogException], Inl e)
      | Inr response \<Rightarrow>
          (let step =
             (if status response = 429 then
                (case retry_resp of
                   Inl e \<Rightarrow> ([Sleep_ms 500, HttpGet BASE_KINOPOISKAPI_URL query], Inl e)
                 | Inr retry_response \<Rightarrow>
                     (case json_body retry_response of
                        BadBody e \<Rightarrow>
                          ([Sleep_ms 500, HttpGet BASE_KINOPOISKAPI_URL query], Inl e)
                      | JsonObject data \<Rightarrow>
                          ([Sleep_ms 500, HttpGet BASE_KINOPOISKAPI_URL query], Inr data)))
              else if status response = 401 \<or> status response = 403 then
                ([LogError ''Invalid kinopoisk API key''], Inr None)
              else if status response \<noteq> 200 then
                ([LogError (''API error: HTTP '' @ str_int (status response))], Inr None)
              else
                (case json_body response of
                   BadBody e \<Rightarrow> ([], Inl e)
                 | JsonObject data \<Rightarrow> ([], Inr data)))
           in case step of
                (tr, Inl e) \<Rightarrow>
                  (HttpGet BASE_KINOPOISKAPI_URL query # tr @ [LogException], Inl e)
              | (tr, Inr data) \<Rightarrow>
                  (HttpGet BASE_KINOPOISKAPI_URL query # tr,
                   Inr (let results = (case data of None \<Rightarrow> [] | Some films \<Rightarrow> films)
                        in if results = [] then [[(''error'', PStr FILM_NOT_FOUND)]]
                           else py_slice_to results (movie_cap self)))))"

text \<open>
  The secondary source's listing, as BeautifulSoup hands it over: one entry per
  \<open>article\<close> block of class \<open>shortstory line\<close>, with its \<open>data-id\<close> attribute and the text
  of its \<open>h2\<close> of class \<open>name\<close>, each absent when the block has none.
\<close>

record article =
  data_id :: "string option"
  name_text :: "string option"

datatype filmix_reply = FilmixFail py_exception | FilmixPage int "article list"

fun parse_filmix_response ::
  "pylib \<Rightarrow> article list \<Rightarrow> string list \<Rightarrow> pyval \<Rightarrow> py_exception + string list" where
  "parse_filmix_response lib [] links movie_title = Inr links"
| "parse_filmix_response lib (dv # rest) links movie_title =
     (case data_id dv of
        None \<Rightarrow> parse_filmix_response lib rest links movie_title
      | Some movie_id \<Rightarrow>
          if movie_id = [] then parse_filmix_response lib rest links movie_title
          else
            (case name_text dv of
               None \<Rightarrow> parse_filmix_response lib rest links movie_title
             | Some t \<Rightarrow>
                 (let title = strip lib t in
                  case movie_title of
                    PStr mt \<Rightarrow>
                      (let similarity_ratio = fuzz_ratio lib (lower lib title) (lower lib mt)
                       in if similarity_ratio \<ge> 30
                          then Inr (links @ [MOVIE_FILMIX_URL @ movie_id])
                          else parse_filmix_response lib rest links movie_title)
                  | _ \<Rightarrow> Inl AttributeError)))"

definition filmix_payload :: "pyval \<Rightarrow> pyval \<Rightarrow> string" where
  "filmix_payload movie_title movie_year =
     ''scf=fx&story='' @ py_format movie_title @ '' '' @ py_format movie_year
     @ ''&search_start=0&do=search&subaction=search&years_ot='' @ py_format movie_year
     @ ''&years_do='' @ py_format movie_year
     @ ''&kpi_ot=1&kpi_do=10&imdb_ot=1&imdb_do=10''
     @ ''&sort_name=&undefined=asc&sort_date=&sort_favorite=&simple=1''"

text \<open>The exceptions \<open>_try_add_filmix_link\<close> catches and logs.\<close>

definition filmix_caught :: "py_exception \<Rightarrow> bool" where
  "filmix_caught e = (e = ClientError \<or> e = ValueError \<or> e = TypeError \<or> e = RuntimeError)"

definition try_add_filmix_link ::
  "pylib \<Rightarrow> string list \<Rightarrow> pyval \<Rightarrow> pyval \<Rightarrow> filmix_reply \<Rightarrow>
   event list \<times> (py_exception + string list)" where
  "try_add_filmix_link lib links movie_title movie_year reply =
     (let payload = filmix_payload movie_title movie_year;
          attempt =
            (case reply of
               FilmixFail e \<Rightarrow> Inl e
             | FilmixPage st articles \<Rightarrow>
                 if 400 \<le> st then Inl ClientError
                 else parse_filmix_response lib articles links movie_title)
      in case attempt of
           Inl e \<Rightarrow>
             if filmix_caught e
             then ([HttpPost FILMIX_SEARCH_URL payload, LogException], Inr links)
             else ([HttpPost FILMIX_SEARCH_URL payload], Inl e)
         | Inr links' \<Rightarrow> ([HttpPost FILMIX_SEARCH_URL payload], Inr links'))"

definition fetch_movie_links ::
  "MovieSearcher \<Rightarrow> pylib \<Rightarrow> pydict \<Rightarrow> filmix_reply \<Rightarrow>
   event list \<times> (py_exception + string list)" where
  "fetch_movie_links self lib movie reply =
     (let links = [];
          movie_type = (if truthy (dict_get movie ''serial'' (PBool False))
                        then ''series'' else ''film'');
          movie_id = dict_get movie ''filmId'' PNone;
          movie_title = dict_get movie ''nameRu'' (PStr []);
          movie_year = dict_get movie ''nameRu'' (dict_get movie ''nameEn'' PNone);
          links = (if truthy movie_id
                   then links @ [BASE_SSPOISK_URL @ movie_type @ ''/'' @ py_format movie_id @ ''/'']
                   else links)
      in if int (length links) < links_cap self
         then try_add_filmix_link lib links movie_title movie_year reply
         else ([], Inr links))"

section \<open>db.py\<close>

text \<open>
  A row of \<open>search_history\<close>. A \<open>NULL\<close> column is \<open>PNone\<close>; the timestamp is the
  reading of the clock at the insert. The table keeps its rows in insertion order.
\<close>

record SearchHistory =
  sh_user_id :: int
  sh_query :: string
  sh_film_name :: pyval
  sh_film_year :: pyval
  sh_timestamp :: int

record database =
  users :: "int list"
  search_history :: "SearchHistory list"

definition add_search ::
  "database \<Rightarrow> int \<Rightarrow> int \<Rightarrow> string \<Rightarrow> pyval \<Rightarrow> pyval \<Rightarrow> database" where
  "add_search session now telegram_id query film_name film_year =
     (let session = (if telegram_id \<in> set (users session) then session
                     else session\<lparr>users := users session @ [telegram_id]\<rparr>);
          search = \<lparr>sh_user_id = telegram_id, sh_query = query, sh_film_name = film_name,
                    sh_film_year = film_year, sh_timestamp = now\<rparr>
      in session\<lparr>search_history := search_history session @ [search]\<rparr>)"

definition get_user_history :: "database \<Rightarrow> int \<Rightarrow> nat option \<Rightarrow> SearchHistory list" where
  "get_user_history session telegram_id page_size =
     (let stmt = sort_key (\<lambda>r. - sh_timestamp r)
                   (filter (\<lambda>r. sh_user_id r = telegram_id) (search_history session))
      in case page_size of None \<Rightarrow> stmt | Some n \<Rightarrow> take n stmt)"

text \<open>
  The statistics query: \<open>WHERE user_id = ? AND film_name IS NOT NULL\<close>,
  \<open>GROUP BY film_name, film_year\<close> with \<open>count(1)\<close>, \<open>ORDER BY count DESC\<close>.
\<close>

definition get_user_stats :: "database \<Rightarrow> int \<Rightarrow> (pyval \<times> pyval \<times> nat) list" where
  "get_user_stats session telegram_id =
     (let rows = filter (\<lambda>r. sh_user_id r = telegram_id \<and> sh_film_name r \<noteq> PNone)
                   (search_history session);
          keys = remdups (map (\<lambda>r. (sh_film_name r, sh_film_year r)) rows);
          groups = map (\<lambda>(n, y). (n, y,
                      length (filter (\<lambda>r. sh_film_name r = n \<and> sh_film_year r = y) rows))) keys
      in sort_key (\<lambda>(n, y, c). - int c) groups)"

section \<open>cinema\_bot.py\<close>

datatype PaginationStates = PS_history | PS_stats | PS_search

text \<open>The per-user state: the FSM state and the keys of its data bag.\<close>

record FSMContext =
  fsm_state :: "PaginationStates option"
  data_page :: "int option"
  data_query :: "string option"
  data_film_info :: "pydict list option"

text \<open>
  What is sent to the user. The texts of the history and statistics pages are kept as
  their ingredients: the page number shown, the number of pages and the numbered items.
\<close>

datatype message_text =
  Plain string
  | HistoryEmpty
  | StatsEmpty
  | HistoryPage int int "(int \<times> SearchHistory) list"
  | StatsPage int int "(int \<times> (pyval \<times> pyval \<times> nat)) list"

datatype transport_call =
  Answer message_text "InlineKeyboardMarkup option"
  | EditText message_text "InlineKeyboardMarkup option"
  | AnswerPhoto pyval string "InlineKeyboardMarkup option"
  | EditMedia pyval string "InlineKeyboardMarkup option"
  | AnswerCallback

definition py_slice :: "'a list \<Rightarrow> int \<Rightarrow> int \<Rightarrow> 'a list" where
  "py_slice xs a b =
     (let n = int (length xs);
          lo = (if a < 0 then max 0 (n + a) else min a n);
          hi = (if b < 0 then max 0 (n + b) else min b n)
      in take (nat (hi - lo)) (drop (nat lo) xs))"

fun py_enumerate :: "'a list \<Rightarrow> int \<Rightarrow> (int \<times> 'a) list" where
  "py_enumerate [] i = []"
| "py_enumerate (x # xs) i = (i, x) # py_enumerate xs (i + 1)"

definition show_history_page ::
  "bool \<Rightarrow> int \<Rightarrow> database \<Rightarrow> FSMContext \<Rightarrow> FSMContext \<times> transport_call list" where
  "show_history_page is_callback user_id session state =
     (let page = (case data_page state of None \<Rightarrow> 0 | Some p \<Rightarrow> p);
          page_size = 20;
          all_history = get_user_history session user_id None
      in if all_history = [] then
           (state, if is_callback then [EditText HistoryEmpty None, AnswerCallback]
                   else [Answer HistoryEmpty None])
         else
           (let total_items = int (length all_history);
                total_pages = (total_items + page_size - 1) div page_size;
                page = max 0 (min page (total_pages - 1));
                state = state\<lparr>data_page := Some page\<rparr>;
                start_idx = page * page_size;
                end_idx = min (start_idx + page_size) total_items;
                page_items = py_slice all_history start_idx end_idx;
                history_message =
                  HistoryPage (page + 1) total_pages (py_enumerate page_items (start_idx + 1));
                keyboard = [];
                row = [];
                row = (if page > 0
                       then row @ [\<lparr>btn_text = LEFT_ARROW, callback_data = ''history_prev''\<rparr>]
                       else row);
                row = (if page < total_pages - 1
                       then row @ [\<lparr>btn_text = RIGHT_ARROW, callback_data = ''history_next''\<rparr>]
                       else row);
                keyboard = (if row \<noteq> [] then keyboard @ [row] else keyboard);
                markup = (if keyboard \<noteq> [] then Some keyboard else None)
            in (state, if is_callback then [EditText history_message markup, AnswerCallback]
                       else [Answer history_message markup])))"

definition show_stats_page ::
  "bool \<Rightarrow> int \<Rightarrow> database \<Rightarrow> FSMContext \<Rightarrow> FSMContext \<times> transport_call list" where
  "show_stats_page is_callback user_id session state =
     (let page = (case data_page state of None \<Rightarrow> 0 | Some p \<Rightarrow> p);
          page_size = 20;
          user_stats = get_user_stats session user_id
      in if user_stats = [] then
           (state, if is_callback then [EditText StatsEmpty None, AnswerCallback]
                   else [Answer StatsEmpty None])
         else
           (let total_items = int (length user_stats);
                total_pages = (total_items + page_size - 1) div page_size;
                page = max 0 (min page (total_pages - 1));
                state = state\<lparr>data_page := Some page\<rparr>;
                start_idx = page * page_size;
                end_idx = min (start_idx + page_size) total_items;
                page_items = py_slice user_stats start_idx end_idx;
                stats_message =
                  StatsPage (page + 1) total_pages (py_enumerate page_items (start_idx + 1));
                keyboard = [];
                row = [];
                row = (if page > 0
                       then row @ [\<lparr>btn_text = LEFT_ARROW, callback_data = ''stats_prev''\<rparr>]
                       else row);
                row = (if page < total_pages - 1
                       then row @ [\<lparr>btn_text = RIGHT_ARROW, callback_data = ''stats_next''\<rparr>]
                       else row);
                keyboard = (if row \<noteq> [] then keyboard @ [row] else keyboard);
                markup = (if keyboard \<noteq> [] then Some keyboard else None)
            in (state, if is_callback then [EditText stats_message markup, AnswerCallback]
                       else [Answer stats_message markup])))"

definition command_history_handler ::
  "int \<Rightarrow> database \<Rightarrow> FSMContext \<Rightarrow> FSMContext \<times> transport_call list" where
  "command_history_handler user_id session state =
     show_history_page False user_id session
       (state\<lparr>fsm_state := Some PS_history, data_page := Some 0\<rparr>)"

definition command_stats_handler ::
  "int \<Rightarrow> database \<Rightarrow> FSMContext \<Rightarrow> FSMContext \<times> transport_call list" where
  "command_stats_handler user_id session state =
     show_stats_page False user_id session
       (state\<lparr>fsm_state := Some PS_stats, data_page := Some 0\<rparr>)"

definition history_prev_page ::
  "int \<Rightarrow> database \<Rightarrow> FSMContext \<Rightarrow> FSMContext \<times> transport_call list" where
  "history_prev_page user_id session state =
     (let page = (case data_page state of None \<Rightarrow> 0 | Some p \<Rightarrow> p)
      in show_history_page True user_id session (state\<lparr>data_page := Some (max 0 (page - 1))\<rparr>))"

definition history_next_page ::
  "int \<Rightarrow> database \<Rightarrow> FSMContext \<Rightarrow> FSMContext \<times> transport_call list" where
  "history_next_page user_id session state =
     (let page = (case data_page state of None \<Rightarrow> 0 | Some p \<Rightarrow> p)
      in show_history_page True user_id session (state\<lparr>data_page := Some (page + 1)\<rparr>))"

definition stats_prev_page ::
  "int \<Rightarrow> database \<Rightarrow> FSMContext \<Rightarrow> FSMContext \<times> transport_call list" where
  "stats_prev_page user_id session state =
     (let page = (case data_page state of None \<Rightarrow> 0 | Some p \<Rightarrow> p)
      in show_stats_page True user_id session (state\<lparr>data_page := Some (max 0 (page - 1))\<rparr>))"

definition stats_next_page ::
  "int \<Rightarrow> database \<Rightarrow> FSMContext \<Rightarrow> FSMContext \<times> transport_call list" where
  "stats_next_page user_id session state =
     (let page = (case data_page state of None \<Rightarrow> 0 | Some p \<Rightarrow> p)
      in show_stats_page True user_id session (state\<lparr>data_page := Some (page + 1)\<rparr>))"

text \<open>The messages of the search handler, in UTF-8.\<close>

definition REQUEST_FAILED :: string where
  "REQUEST_FAILED =
     [CHR 0xD0, CHR 0x9D, CHR 0xD0, CHR 0xB5, CHR 0x20, CHR 0xD1, CHR 0x83,
      CHR 0xD0, CHR 0xB4, CHR 0xD0, CHR 0xB0, CHR 0xD0, CHR 0xBB, CHR 0xD0,
      CHR 0xBE, CHR 0xD1, CHR 0x81, CHR 0xD1, CHR 0x8C, CHR 0x20, CHR 0xD0,
      CHR 0xBE, CHR 0xD0, CHR 0xB1, CHR 0xD1, CHR 0x80, CHR 0xD0, CHR 0xB0,
      CHR 0xD0, CHR 0xB1, CHR 0xD0, CHR 0xBE, CHR 0xD1, CHR 0x82, CHR 0xD0,
      CHR 0xB0, CHR 0xD1, CHR 0x82, CHR 0xD1, CHR 0x8C, CHR 0x20, CHR 0xD0,
      CHR 0xB7, CHR 0xD0, CHR 0xB0, CHR 0xD0, CHR 0xBF, CHR 0xD1, CHR 0x80,
      CHR 0xD0, CHR 0xBE, CHR 0xD1, CHR 0x81]"

definition BAD_REQUEST_DATA :: string where
  "BAD_REQUEST_DATA =
     [CHR 0xD0, CHR 0x9D, CHR 0xD0, CHR 0xB5, CHR 0xD0, CHR 0xBA, CHR 0xD0,
      CHR 0xBE, CHR 0xD1, CHR 0x80, CHR 0xD1, CHR 0x80, CHR 0xD0, CHR 0xB5,
      CHR 0xD0, CHR 0xBA, CHR 0xD1, CHR 0x82, CHR 0xD0, CHR 0xBD, CHR 0xD1,
      CHR 0x8B, CHR 0xD0, CHR 0xB5, CHR 0x20, CHR 0xD0, CHR 0xB4, CHR 0xD0,
      CHR 0xB0, CHR 0xD0, CHR 0xBD, CHR 0xD0, CHR 0xBD, CHR 0xD1, CHR 0x8B,
      CHR 0xD0, CHR 0xB5, CHR 0x20, CHR 0xD0, CHR 0xB7, CHR 0xD0, CHR 0xB0,
      CHR 0xD0, CHR 0xBF, CHR 0xD1, CHR 0x80, CHR 0xD0, CHR 0xBE, CHR 0xD1,
      CHR 0x81, CHR 0xD0, CHR 0xB0]"

definition UNKNOWN_ERROR :: string where
  "UNKNOWN_ERROR =
     [CHR 0xD0, CHR 0x9F, CHR 0xD1, CHR 0x80, CHR 0xD0, CHR 0xBE, CHR 0xD0,
      CHR 0xB8, CHR 0xD0, CHR 0xB7, CHR 0xD0, CHR 0xBE, CHR 0xD1, CHR 0x88,
      CHR 0xD0, CHR 0xBB, CHR 0xD0, CHR 0xB0, CHR 0x20, CHR 0xD0, CHR 0xBD,
      CHR 0xD0, CHR 0xB5, CHR 0xD0, CHR 0xB8, CHR 0xD0, CHR 0xB7, CHR 0xD0,
      CHR 0xB2, CHR 0xD0, CHR 0xB5, CHR 0xD1, CHR 0x81, CHR 0xD1, CHR 0x82,
      CHR 0xD0, CHR 0xBD, CHR 0xD0, CHR 0xB0, CHR 0xD1, CHR 0x8F, CHR 0x20,
      CHR 0xD0, CHR 0xBE, CHR 0xD1, CHR 0x88, CHR 0xD0, CHR 0xB8, CHR 0xD0,
      CHR 0xB1, CHR 0xD0, CHR 0xBA, CHR 0xD0, CHR 0xB0]"

definition RATING_LABEL :: string where
  "RATING_LABEL =
     [CHR 0xD0, CHR 0xA0, CHR 0xD0, CHR 0xB5, CHR 0xD0, CHR 0xB9, CHR 0xD1,
      CHR 0x82, CHR 0xD0, CHR 0xB8, CHR 0xD0, CHR 0xBD, CHR 0xD0, CHR 0xB3]"

definition WATCH_LABEL :: string where
  "WATCH_LABEL =
     [CHR 0xF0, CHR 0x9F, CHR 0x94, CHR 0x97, CHR 0xD0, CHR 0x9F, CHR 0xD0,
      CHR 0xBE, CHR 0xD1, CHR 0x81, CHR 0xD0, CHR 0xBC, CHR 0xD0, CHR 0xBE,
      CHR 0xD1, CHR 0x82, CHR 0xD1, CHR 0x80, CHR 0xD0, CHR 0xB5, CHR 0xD1,
      CHR 0x82, CHR 0xD1, CHR 0x8C]"

text \<open>
  \<open>get_film_caption\<close> returns the bare value of \<open>film["error"]\<close> for an error candidate
  and a triple otherwise.
\<close>

datatype caption_result = ErrorText pyval | Caption string pyval pyval

definition get_film_caption ::
  "MovieSearcher \<Rightarrow> pylib \<Rightarrow> pydict \<Rightarrow> filmix_reply \<Rightarrow>
   event list \<times> (py_exception + caption_result)" where
  "get_film_caption searcher lib film reply =
     (if dict_has film ''error'' then ([], Inr (ErrorText (dict_get film ''error'' PNone)))
      else
        (let caption = [];
             film_name = dict_get film ''nameRu'' (dict_get film ''nameEn'' PNone);
             film_year = dict_get film ''year'' PNone;
             film_rating = dict_get film ''rating'' PNone;
             film_description = dict_get film ''description'' PNone
         in case fetch_movie_links searcher lib film reply of
              (ev, Inl e) \<Rightarrow> (ev, Inl e)
            | (ev, Inr links) \<Rightarrow>
                (case (if truthy film_name \<and> truthy film_year then
                         (case film_name of
                            PStr n \<Rightarrow>
                              (let film_id = dict_get film ''filmId'' PNone
                               in if truthy film_id then
                                    (let kinopoisk_url =
                                       ''https://www.kinopoisk.ru/film/'' @ py_format film_id @ ''/''
                                     in Inr (caption @ ''<a href='' @ [CHR 0x22] @ kinopoisk_url
                                             @ [CHR 0x22] @ ''>'' @ ''<b>'' @ html_escape n
                                             @ '' ('' @ py_format film_year @ '')</b></a>''
                                             @ [CHR 0x0A]))
                                  else Inr (caption @ ''<b>'' @ html_escape n @ '' (''
                                            @ py_format film_year @ '')</b>'' @ [CHR 0x0A]))
                          | _ \<Rightarrow> Inl AttributeError)
                       else Inr caption) of
                   Inl e \<Rightarrow> (ev, Inl e)
                 | Inr caption \<Rightarrow>
                     (let caption = (if truthy film_rating \<and> film_rating \<noteq> PStr ''null''
                                     then caption @ ''<b>'' @ RATING_LABEL @ ''</b>: ''
                                          @ py_format film_rating @ [CHR 0x0A]
                                     else caption);
                          max_description_length =
                            1024 - py_len caption - sum_list (map py_len links)
                      in case (if truthy film_description then
                                 (case film_description of
                                    PStr d \<Rightarrow>
                                      Inr (caption @ ''<blockquote>''
                                           @ html_escape (str_slice_to d max_description_length)
                                           @ ''</blockquote>'' @ [CHR 0x0A])
                                  | _ \<Rightarrow> Inl TypeError)
                               else Inr caption) of
                           Inl e \<Rightarrow> (ev, Inl e)
                         | Inr caption \<Rightarrow>
                             (ev, Inr (Caption
                                (caption @ concat (map (\<lambda>link. ''<a href='' @ [CHR 0x22] @ link
                                     @ [CHR 0x22] @ ''>'' @ WATCH_LABEL @ ''</a>'' @ [CHR 0x0A]) links))
                                film_name film_year))))))"

text \<open>
  The assignment \<open>caption, film_name, film_year = ...\<close>: a triple is taken apart, a string
  is unpacked into its characters when it has exactly three and raises \<open>ValueError\<close>
  otherwise, and a value that is not iterable raises \<open>TypeError\<close>.
\<close>

definition unpack3 :: "caption_result \<Rightarrow> py_exception + (string \<times> pyval \<times> pyval)" where
  "unpack3 r =
     (case r of
        Caption caption film_name film_year \<Rightarrow> Inr (caption, film_name, film_year)
      | ErrorText (PStr s) \<Rightarrow>
          (case codepoints s of
             [a, b, c] \<Rightarrow> Inr (a, PStr b, PStr c)
           | _ \<Rightarrow> Inl ValueError)
      | ErrorText _ \<Rightarrow> Inl TypeError)"

text \<open>
  The bot as a handler sees it: the user's state, the database, what was sent to the
  user and what was done on the network.
\<close>

record bot =
  ctx :: FSMContext
  db :: database
  sent :: "transport_call list"
  net :: "event list"

text \<open>
  A handler returns the bot it leaves behind and the exception that ended it, if any.
  \<open>now\<close> is the clock's reading when the history row is written.
\<close>

definition show_search_page ::
  "MovieSearcher \<Rightarrow> pylib \<Rightarrow> filmix_reply \<Rightarrow> int \<Rightarrow> bool \<Rightarrow> int \<Rightarrow> bot \<Rightarrow>
   bot \<times> py_exception option" where
  "show_search_page searcher lib reply now is_callback user_id w =
     (let page = (case data_page (ctx w) of None \<Rightarrow> 0 | Some p \<Rightarrow> p);
          query = (case data_query (ctx w) of None \<Rightarrow> [] | Some q \<Rightarrow> q);
          film_info = (case data_film_info (ctx w) of None \<Rightarrow> [] | Some fs \<Rightarrow> fs)
      in if film_info = [] then
           (w\<lparr>sent := sent w @ (if is_callback
                                 then [EditText (Plain FILM_NOT_FOUND) None, AnswerCallback]
                                 else [Answer (Plain FILM_NOT_FOUND) None]),
              db := add_search (db w) now user_id query PNone PNone\<rparr>, None)
         else
           (let total_pages = int (length film_info);
                page = max 0 (min page (total_pages - 1));
                w = w\<lparr>ctx := (ctx w)\<lparr>data_page := Some page\<rparr>\<rparr>;
                film = film_info ! nat page
            in case get_film_caption searcher lib film reply of
                 (ev, Inl e) \<Rightarrow> (w\<lparr>net := net w @ ev\<rparr>, Some e)
               | (ev, Inr r) \<Rightarrow>
                   (case unpack3 r of
                      Inl e \<Rightarrow> (w\<lparr>net := net w @ ev\<rparr>, Some e)
                    | Inr (caption, film_name, film_year) \<Rightarrow>
                        (let markup = create_pagination_keyboard page total_pages ''search'';
                             film_poster = dict_get film ''posterUrlPreview'' (PStr [])
                         in (w\<lparr>net := net w @ ev,
                               sent := sent w @
                                 [if is_callback \<and> truthy film_poster
                                  then EditMedia film_poster caption markup
                                  else if is_callback then EditText (Plain caption) markup
                                  else if truthy film_poster
                                  then AnswerPhoto film_poster caption markup
                                  else Answer (Plain caption) markup],
                               db := add_search (db w) now user_id query film_name film_year\<rparr>,
                             None)))))"

text \<open>
  The catch-all message handler. \<open>message_text\<close> is \<open>None\<close> for a message without text,
  on which \<open>.strip()\<close> raises. \<open>now_page\<close> and \<open>now_handler\<close> are the clock's readings at
  the two history writes.
\<close>

definition movie_search_handler ::
  "MovieSearcher \<Rightarrow> pylib \<Rightarrow> py_exception + http_response \<Rightarrow> py_exception + http_response \<Rightarrow>
   filmix_reply \<Rightarrow> int \<Rightarrow> int \<Rightarrow> int \<Rightarrow> string option \<Rightarrow> bot \<Rightarrow> bot \<times> py_exception option" where
  "movie_search_handler searcher lib resp retry_resp reply now_page now_handler user_id
     message_text w =
     (case message_text of
        None \<Rightarrow> (w, Some AttributeError)
      | Some txt \<Rightarrow>
          (let query = strip lib txt;
               (ev, fetched) = fetch_movies searcher query resp retry_resp;
               film_info =
                 (case fetched of
                    Inr films \<Rightarrow> films
                  | Inl e \<Rightarrow>
                      if e = ClientError \<or> e = TimeoutError
                      then [[(''error'', PStr REQUEST_FAILED)]]
                      else if e = ValueError then [[(''error'', PStr BAD_REQUEST_DATA)]]
                      else [[(''error'', PStr UNKNOWN_ERROR)]]);
               w = w\<lparr>net := net w @ ev,
                      ctx := (ctx w)\<lparr>fsm_state := Some PS_search, data_page := Some 0,
                                      data_query := Some query,
                                      data_film_info := Some film_info\<rparr>\<rparr>;
               (w, raised) = show_search_page searcher lib reply now_page False user_id w
           in case raised of
                Some e \<Rightarrow> (w, Some e)
              | None \<Rightarrow>
                  (w\<lparr>db := add_search (db w) now_handler user_id query PNone PNone\<rparr>, None)))"

definition search_prev_page ::
  "MovieSearcher \<Rightarrow> pylib \<Rightarrow> filmix_reply \<Rightarrow> int \<Rightarrow> int \<Rightarrow> bot \<Rightarrow> bot \<times> py_exception option" where
  "search_prev_page searcher lib reply now user_id w =
     (let page = (case data_page (ctx w) of None \<Rightarrow> 0 | Some p \<Rightarrow> p)
      in show_search_page searcher lib reply now True user_id
           (w\<lparr>ctx := (ctx w)\<lparr>data_page := Some (max 0 (page - 1))\<rparr>\<rparr>))"

definition search_next_page ::
  "MovieSearcher \<Rightarrow> pylib \<Rightarrow> filmix_reply \<Rightarrow> int \<Rightarrow> int \<Rightarrow> bot \<Rightarrow> bot \<times> py_exception option" where
  "search_next_page searcher lib reply now user_id w =
     (let page = (case data_page (ctx w) of None \<Rightarrow> 0 | Some p \<Rightarrow> p)
      in show_search_page searcher lib reply now True user_id
           (w\<lparr>ctx := (ctx w)\<lparr>data_page := Some (page + 1)\<rparr>\<rparr>))"

section \<open>Notions used in the statements\<close>

definition buttons :: "InlineKeyboardMarkup option \<Rightarrow> InlineKeyboardButton list" where
  "buttons m = (case m of None \<Rightarrow> [] | Some keyboard \<Rightarrow> concat keyboard)"

definition prev_button :: "string \<Rightarrow> InlineKeyboardButton" where
  "prev_button prefix = \<lparr>btn_text = LEFT_ARROW, callback_data = prefix @ ''_prev''\<rparr>"

definition next_button :: "string \<Rightarrow> InlineKeyboardButton" where
  "next_button prefix = \<lparr>btn_text = RIGHT_ARROW, callback_data = prefix @ ''_next''\<rparr>"

fun markup_of :: "transport_call \<Rightarrow> InlineKeyboardMarkup option" where
  "markup_of (Answer t m) = m"
| "markup_of (EditText t m) = m"
| "markup_of (AnswerPhoto p c m) = m"
| "markup_of (EditMedia p c m) = m"
| "markup_of AnswerCallback = None"

definition stored_page :: "FSMContext \<Rightarrow> int" where
  "stored_page state = (case data_page state of None \<Rightarrow> 0 | Some p \<Rightarrow> p)"


text \<open>Sample values at which the theorems are instantiated.\<close>

definition sample_session :: database where
  "sample_session =
     \<lparr>users = [7],
      search_history =
        [\<lparr>sh_user_id = 7, sh_query = ''venom'', sh_film_name = PStr ''Venom'',
          sh_film_year = PStr ''2018'', sh_timestamp = 1\<rparr>,
         \<lparr>sh_user_id = 7, sh_query = ''qwerty'', sh_film_name = PNone,
          sh_film_year = PNone, sh_timestamp = 2\<rparr>]\<rparr>"

definition sample_state :: FSMContext where
  "sample_state =
     \<lparr>fsm_state = Some PS_history, data_page = Some 5, data_query = None,
      data_film_info = None\<rparr>"

definition sample_films :: "pydict list" where
  "sample_films =
     [[(''filmId'', PInt 1), (''nameRu'', PStr ''Venom''), (''year'', PStr ''2018'')],
      [(''filmId'', PInt 2), (''nameRu'', PStr ''Venom 2''), (''year'', PStr ''2021'')],
      [(''filmId'', PInt 3), (''nameRu'', PStr ''Venom 3''), (''year'', PStr ''2024'')]]"

definition sample_bot :: "int \<Rightarrow> bot" where
  "sample_bot p =
     \<lparr>ctx = \<lparr>fsm_state = Some PS_search, data_page = Some p, data_query = Some ''venom'',
              data_film_info = Some sample_films\<rparr>,
      db = sample_session, sent = [], net = []\<rparr>"

definition sample_long_session :: database where
  "sample_long_session =
     \<lparr>users = [7],
      search_history =
        replicate 41 \<lparr>sh_user_id = 7, sh_query = ''venom'', sh_film_name = PStr ''Venom'',
          sh_film_year = PStr ''2018'', sh_timestamp = 1\<rparr>\<rparr>"

definition sample_searcher :: MovieSearcher where
  "sample_searcher = \<lparr>kinopoisk_unofficial_api_key = ''key'', links_cap = 1, movie_cap = 3\<rparr>"

definition sample_lib :: pylib where
  "sample_lib =
     \<lparr>lower = (\<lambda>s. s), strip = (\<lambda>s. s),
      fuzz_ratio = (\<lambda>a b. if a = b then 100 else 0)\<rparr>"

text \<open>The NotFound candidate list, and the requests and waits in a trace.\<close>

definition not_found :: "pydict list" where
  "not_found = [[(''error'', PStr FILM_NOT_FOUND)]]"

fun is_get :: "event \<Rightarrow> bool" where
  "is_get (HttpGet url keyword) = True"
| "is_get _ = False"

fun is_sleep :: "event \<Rightarrow> bool" where
  "is_sleep (Sleep_ms ms) = True"
| "is_sleep _ = False"

definition films_result :: "int \<Rightarrow> pydict list option \<Rightarrow> pydict list" where
  "films_result cap data =
     (case data of None \<Rightarrow> not_found
      | Some films \<Rightarrow> if films = [] then not_found else py_slice_to films cap)"

text \<open>
  An entry of the listing qualifies when it has an identifier and a title and the ratio of
  its title to the film's title reaches 30.
\<close>

definition qualifies :: "pylib \<Rightarrow> string \<Rightarrow> article \<Rightarrow> bool" where
  "qualifies lib movie_title a =
     (case data_id a of
        None \<Rightarrow> False
      | Some movie_id \<Rightarrow>
          movie_id \<noteq> [] \<and>
          (case name_text a of
             None \<Rightarrow> False
           | Some t \<Rightarrow>
               fuzz_ratio lib (lower lib (strip lib t)) (lower lib movie_title) \<ge> 30))"

definition filmix_link :: "article \<Rightarrow> string" where
  "filmix_link a = MOVIE_FILMIX_URL @ (case data_id a of None \<Rightarrow> [] | Some movie_id \<Rightarrow> movie_id)"

definition primary_link :: "pydict \<Rightarrow> string" where
  "primary_link movie =
     BASE_SSPOISK_URL
     @ (if truthy (dict_get movie ''serial'' (PBool False)) then ''series'' else ''film'')
     @ ''/'' @ py_format (dict_get movie ''filmId'' PNone) @ ''/''"

definition ratio_lib :: pylib where
  "ratio_lib =
     \<lparr>lower = (\<lambda>s. s), strip = (\<lambda>s. s),
      fuzz_ratio = (\<lambda>a b. if a = ''r90'' then 90 else if a = ''r45'' then 45
                          else if a = ''r30'' then 30 else if a = ''r29'' then 29 else 20)\<rparr>"

text \<open>How often a film was recorded for a user, and the parts of a statistics row.\<close>

definition user_film_count :: "database \<Rightarrow> int \<Rightarrow> pyval \<Rightarrow> pyval \<Rightarrow> nat" where
  "user_film_count session telegram_id n y =
     length (filter (\<lambda>r. sh_user_id r = telegram_id \<and> sh_film_name r = n \<and> sh_film_year r = y)
               (search_history session))"

definition stat_key :: "pyval \<times> pyval \<times> nat \<Rightarrow> pyval \<times> pyval" where
  "stat_key s = (fst s, fst (snd s))"

definition stat_count :: "pyval \<times> pyval \<times> nat \<Rightarrow> nat" where
  "stat_count s = snd (snd s)"

definition stats_session :: database where
  "stats_session =
     \<lparr>users = [7, 8],
      search_history =
        [\<lparr>sh_user_id = 7, sh_query = ''a'', sh_film_name = PStr ''A'',
          sh_film_year = PStr ''2001'', sh_timestamp = 1\<rparr>,
         \<lparr>sh_user_id = 7, sh_query = ''b'', sh_film_name = PStr ''B'',
          sh_film_year = PStr ''2002'', sh_timestamp = 2\<rparr>,
         \<lparr>sh_user_id = 7, sh_query = ''zzz'', sh_film_name = PNone,
          sh_film_year = PNone, sh_timestamp = 3\<rparr>,
         \<lparr>sh_user_id = 8, sh_query = ''a'', sh_film_name = PStr ''A'',
          sh_film_year = PStr ''2001'', sh_timestamp = 4\<rparr>,
         \<lparr>sh_user_id = 7, sh_query = ''b'', sh_film_name = PStr ''B'',
          sh_film_year = PStr ''2002'', sh_timestamp = 5\<rparr>,
         \<lparr>sh_user_id = 7, sh_query = ''b'', sh_film_name = PStr ''B'',
          sh_film_year = PStr ''1999'', sh_timestamp = 6\<rparr>,
         \<lparr>sh_user_id = 7, sh_query = ''b2'', sh_film_name = PStr ''B'',
          sh_film_year = PStr ''2002'', sh_timestamp = 7\<rparr>]\<rparr>"

section \<open>Page arithmetic and the state a render leaves behind\<close>


lemma total_pages_pos:
  fixes n P :: int
  assumes "0 < P" "0 < n"
  shows "1 \<le> (n + P - 1) div P"
proof -
  have "P \<le> n + P - 1" using assms by simp
  then have "P div P \<le> (n + P - 1) div P" by (rule zdiv_mono1) (use assms in simp)
  then show ?thesis using assms by simp
qed

lemma show_history_page_state:
  assumes "get_user_history session user_id None \<noteq> []"
  shows "fst (show_history_page is_callback user_id session state) =
           state\<lparr>data_page := Some (max 0 (min (stored_page state)
             ((int (length (get_user_history session user_id None)) + 20 - 1) div 20 - 1)))\<rparr>"
  using assms by (simp add: show_history_page_def stored_page_def Let_def)

lemma show_stats_page_state:
  assumes "get_user_stats session user_id \<noteq> []"
  shows "fst (show_stats_page is_callback user_id session state) =
           state\<lparr>data_page := Some (max 0 (min (stored_page state)
             ((int (length (get_user_stats session user_id)) + 20 - 1) div 20 - 1)))\<rparr>"
  using assms by (simp add: show_stats_page_def stored_page_def Let_def)

lemma show_search_page_ctx:
  assumes "data_film_info (ctx w) = Some films" "films \<noteq> []"
  shows "ctx (fst (show_search_page searcher lib reply now is_callback user_id w)) =
           (ctx w)\<lparr>data_page := Some (max 0 (min (stored_page (ctx w)) (int (length films) - 1)))\<rparr>"
  using assms
  by (simp add: show_search_page_def stored_page_def Let_def split: prod.splits sum.splits)




section \<open>The film lookup, case by case\<close>

lemma length_py_slice_to: "0 \<le> n \<Longrightarrow> int (length (py_slice_to xs n)) \<le> n"
  by (simp add: py_slice_to_def)

lemma py_slice_to_take: "0 \<le> n \<Longrightarrow> py_slice_to xs n = take (nat n) xs"
  by (simp add: py_slice_to_def)

lemma fetch_movies_result:
  "snd (fetch_movies self query resp retry_resp) = Inr out \<Longrightarrow>
     out = not_found \<or> (\<exists>films. films \<noteq> [] \<and> out = py_slice_to films (movie_cap self))"
  by (auto simp add: fetch_movies_def not_found_def Let_def
      split: sum.splits json_result.splits if_splits option.splits)

lemma fetch_movies_ok:
  "fetch_movies self query (Inr \<lparr>status = 200, json_body = JsonObject data\<rparr>) retry_resp =
     ([HttpGet BASE_KINOPOISKAPI_URL query], Inr (films_result (movie_cap self) data))"
  by (simp add: fetch_movies_def films_result_def not_found_def Let_def split: option.splits)

lemma fetch_movies_429:
  assumes "status response = 429"
  shows "fetch_movies self query (Inr response) retry_resp =
     (case retry_resp of
        Inl e \<Rightarrow> ([HttpGet BASE_KINOPOISKAPI_URL query, Sleep_ms 500,
                   HttpGet BASE_KINOPOISKAPI_URL query, LogException], Inl e)
      | Inr retry_response \<Rightarrow>
          (case json_body retry_response of
             BadBody e \<Rightarrow> ([HttpGet BASE_KINOPOISKAPI_URL query, Sleep_ms 500,
                   HttpGet BASE_KINOPOISKAPI_URL query, LogException], Inl e)
           | JsonObject data \<Rightarrow> ([HttpGet BASE_KINOPOISKAPI_URL query, Sleep_ms 500,
                   HttpGet BASE_KINOPOISKAPI_URL query],
                   Inr (films_result (movie_cap self) data))))"
  using assms
  by (simp add: fetch_movies_def films_result_def not_found_def Let_def
      split: sum.splits json_result.splits option.splits)

lemma fetch_movies_no_retry:
  assumes "status response \<noteq> 429"
  shows "length (filter is_get (fst (fetch_movies self query (Inr response) retry_resp))) = 1
    \<and> filter is_sleep (fst (fetch_movies self query (Inr response) retry_resp)) = []"
  using assms
  by (simp add: fetch_movies_def Let_def split: sum.splits json_result.splits option.splits)

section \<open>The link resolver, step by step\<close>

lemma parse_filmix_response_adds:
  "parse_filmix_response lib articles links movie_title = Inr links' \<Longrightarrow>
     links' = links \<or> (\<exists>x. links' = links @ [x])"
  by (induction articles)
     (auto simp add: Let_def split: option.splits if_splits pyval.splits)

lemma try_add_filmix_link_adds:
  "snd (try_add_filmix_link lib links movie_title movie_year reply) = Inr links' \<Longrightarrow>
     links' = links \<or> (\<exists>x. links' = links @ [x])"
  by (auto simp add: try_add_filmix_link_def Let_def
      split: sum.splits filmix_reply.splits if_splits
      dest: parse_filmix_response_adds)

lemma try_add_filmix_link_post:
  "fst (try_add_filmix_link lib links movie_title movie_year reply) \<noteq> [] \<and>
   hd (fst (try_add_filmix_link lib links movie_title movie_year reply))
     = HttpPost FILMIX_SEARCH_URL (filmix_payload movie_title movie_year)"
  by (simp add: try_add_filmix_link_def Let_def split: sum.splits)

lemma fetch_movie_links_shape:
  "fetch_movie_links self lib movie reply =
     (let links = (if truthy (dict_get movie ''filmId'' PNone) then [primary_link movie] else [])
      in if int (length links) < links_cap self
         then try_add_filmix_link lib links (dict_get movie ''nameRu'' (PStr []))
                (dict_get movie ''nameRu'' (dict_get movie ''nameEn'' PNone)) reply
         else ([], Inr links))"
  by (simp add: fetch_movie_links_def primary_link_def Let_def)

lemma fetch_movie_links_adds:
  assumes "snd (fetch_movie_links self lib movie reply) = Inr links"
  shows "let base = (if truthy (dict_get movie ''filmId'' PNone)
                     then [primary_link movie] else [])
         in links = base \<or> (int (length base) < links_cap self \<and> (\<exists>x. links = base @ [x]))"
proof (cases "truthy (dict_get movie ''filmId'' PNone)")
  case True
  show ?thesis
  proof (cases "1 < links_cap self")
    case c: True
    then have "snd (try_add_filmix_link lib [primary_link movie]
          (dict_get movie ''nameRu'' (PStr []))
          (dict_get movie ''nameRu'' (dict_get movie ''nameEn'' PNone)) reply) = Inr links"
      using assms True by (simp add: fetch_movie_links_shape Let_def)
    from try_add_filmix_link_adds [OF this] show ?thesis using True c by (simp add: Let_def)
  next
    case False
    then show ?thesis using assms True by (simp add: fetch_movie_links_shape Let_def)
  qed
next
  case False
  show ?thesis
  proof (cases "0 < links_cap self")
    case c: True
    then have "snd (try_add_filmix_link lib []
          (dict_get movie ''nameRu'' (PStr []))
          (dict_get movie ''nameRu'' (dict_get movie ''nameEn'' PNone)) reply) = Inr links"
      using assms False by (simp add: fetch_movie_links_shape Let_def)
    from try_add_filmix_link_adds [OF this] show ?thesis using False c by (simp add: Let_def)
  next
    case c: False
    then show ?thesis using assms False by (simp add: fetch_movie_links_shape Let_def)
  qed
qed

section \<open>Previous and next\<close>

lemma data_page_same:
  "data_page st = Some p \<Longrightarrow> (st\<lparr>data_page := Some q\<rparr> = st) = (q = p)"
  by (cases st) auto

lemma stored_page_update [simp]: "stored_page (st\<lparr>data_page := Some p\<rparr>) = p"
  by (simp add: stored_page_def)

lemma history_prev_page_state:
  assumes "get_user_history session user_id None \<noteq> []"
  shows "fst (history_prev_page user_id session state) =
           state\<lparr>data_page := Some (max 0 (min (max 0 (stored_page state - 1))
             ((int (length (get_user_history session user_id None)) + 20 - 1) div 20 - 1)))\<rparr>"
  unfolding history_prev_page_def Let_def
  by (simp add: show_history_page_state [OF assms] stored_page_def [symmetric])

lemma history_next_page_state:
  assumes "get_user_history session user_id None \<noteq> []"
  shows "fst (history_next_page user_id session state) =
           state\<lparr>data_page := Some (max 0 (min (stored_page state + 1)
             ((int (length (get_user_history session user_id None)) + 20 - 1) div 20 - 1)))\<rparr>"
  unfolding history_next_page_def Let_def
  by (simp add: show_history_page_state [OF assms] stored_page_def [symmetric])

lemma stats_prev_page_state:
  assumes "get_user_stats session user_id \<noteq> []"
  shows "fst (stats_prev_page user_id session state) =
           state\<lparr>data_page := Some (max 0 (min (max 0 (stored_page state - 1))
             ((int (length (get_user_stats session user_id)) + 20 - 1) div 20 - 1)))\<rparr>"
  unfolding stats_prev_page_def Let_def
  by (simp add: show_stats_page_state [OF assms] stored_page_def [symmetric])

lemma stats_next_page_state:
  assumes "get_user_stats session user_id \<noteq> []"
  shows "fst (stats_next_page user_id session state) =
           state\<lparr>data_page := Some (max 0 (min (stored_page state + 1)
             ((int (length (get_user_stats session user_id)) + 20 - 1) div 20 - 1)))\<rparr>"
  unfolding stats_next_page_def Let_def
  by (simp add: show_stats_page_state [OF assms] stored_page_def [symmetric])

lemma search_prev_page_ctx:
  assumes "data_film_info (ctx w) = Some films" "films \<noteq> []"
  shows "ctx (fst (search_prev_page searcher lib reply now user_id w)) =
           (ctx w)\<lparr>data_page := Some (max 0 (min (max 0 (stored_page (ctx w) - 1))
             (int (length films) - 1)))\<rparr>"
  unfolding search_prev_page_def Let_def
  using assms
  by (simp add: show_search_page_ctx [where films = films] stored_page_def [symmetric])

lemma search_next_page_ctx:
  assumes "data_film_info (ctx w) = Some films" "films \<noteq> []"
  shows "ctx (fst (search_next_page searcher lib reply now user_id w)) =
           (ctx w)\<lparr>data_page := Some (max 0 (min (stored_page (ctx w) + 1)
             (int (length films) - 1)))\<rparr>"
  unfolding search_next_page_def Let_def
  using assms
  by (simp add: show_search_page_ctx [where films = films] stored_page_def [symmetric])


lemma history_round_trip:
  assumes ne: "get_user_history session user_id None \<noteq> []"
    and pg: "data_page state = Some page"
  shows "let total_pages = (int (length (get_user_history session user_id None)) + 20 - 1) div 20
     in (0 < page \<and> page < total_pages - 1 \<longrightarrow>
           fst (history_next_page user_id session
                 (fst (history_prev_page user_id session state))) = state
           \<and> fst (history_prev_page user_id session
                 (fst (history_next_page user_id session state))) = state)
        \<and> (page = 0 \<longrightarrow> fst (history_prev_page user_id session state) = state)
        \<and> (page = total_pages - 1 \<longrightarrow> fst (history_next_page user_id session state) = state)"
proof -
  have sp: "stored_page state = page" using pg by (simp add: stored_page_def)
  have one: "1 \<le> (int (length (get_user_history session user_id None)) + 20 - 1) div 20"
    using ne total_pages_pos [of 20 "int (length (get_user_history session user_id None))"]
    by simp
  show ?thesis
    unfolding Let_def
    using one
    by (auto simp add: history_prev_page_state [OF ne] history_next_page_state [OF ne] sp
        data_page_same [OF pg] max_def min_def)
qed

lemma stats_round_trip:
  assumes ne: "get_user_stats session user_id \<noteq> []"
    and pg: "data_page state = Some page"
  shows "let total_pages = (int (length (get_user_stats session user_id)) + 20 - 1) div 20
     in (0 < page \<and> page < total_pages - 1 \<longrightarrow>
           fst (stats_next_page user_id session
                 (fst (stats_prev_page user_id session state))) = state
           \<and> fst (stats_prev_page user_id session
                 (fst (stats_next_page user_id session state))) = state)
        \<and> (page = 0 \<longrightarrow> fst (stats_prev_page user_id session state) = state)
        \<and> (page = total_pages - 1 \<longrightarrow> fst (stats_next_page user_id session state) = state)"
proof -
  have sp: "stored_page state = page" using pg by (simp add: stored_page_def)
  have one: "1 \<le> (int (length (get_user_stats session user_id)) + 20 - 1) div 20"
    using ne total_pages_pos [of 20 "int (length (get_user_stats session user_id))"]
    by simp
  show ?thesis
    unfolding Let_def
    using one
    by (auto simp add: stats_prev_page_state [OF ne] stats_next_page_state [OF ne] sp
        data_page_same [OF pg] max_def min_def)
qed

lemma search_round_trip:
  assumes fi: "data_film_info (ctx w) = Some films" and ne: "films \<noteq> []"
    and pg: "data_page (ctx w) = Some page"
  shows "let total_pages = int (length films)
     in (0 < page \<and> page < total_pages - 1 \<longrightarrow>
           ctx (fst (search_next_page searcher lib reply' now' user_id
                 (fst (search_prev_page searcher lib reply now user_id w)))) = ctx w
           \<and> ctx (fst (search_prev_page searcher lib reply' now' user_id
                 (fst (search_next_page searcher lib reply now user_id w)))) = ctx w)
        \<and> (page = 0 \<longrightarrow> ctx (fst (search_prev_page searcher lib reply now user_id w)) = ctx w)
        \<and> (page = total_pages - 1 \<longrightarrow>
             ctx (fst (search_next_page searcher lib reply now user_id w)) = ctx w)"
proof -
  have sp: "stored_page (ctx w) = page" using pg by (simp add: stored_page_def)
  have one: "1 \<le> int (length films)" using ne by (cases films) simp_all
  have p: "ctx (fst (search_prev_page searcher lib reply now user_id w)) =
       (ctx w)\<lparr>data_page := Some (max 0 (min (max 0 (page - 1)) (int (length films) - 1)))\<rparr>"
    using search_prev_page_ctx [OF fi ne] sp by simp
  have n: "ctx (fst (search_next_page searcher lib reply now user_id w)) =
       (ctx w)\<lparr>data_page := Some (max 0 (min (page + 1) (int (length films) - 1)))\<rparr>"
    using search_next_page_ctx [OF fi ne] sp by simp
  have fp: "data_film_info (ctx (fst (search_prev_page searcher lib reply now user_id w)))
      = Some films" using p fi by simp
  have fn: "data_film_info (ctx (fst (search_next_page searcher lib reply now user_id w)))
      = Some films" using n fi by simp
  have pn: "ctx (fst (search_next_page searcher lib reply' now' user_id
                 (fst (search_prev_page searcher lib reply now user_id w)))) =
       (ctx w)\<lparr>data_page := Some (max 0 (min
           (max 0 (min (max 0 (page - 1)) (int (length films) - 1)) + 1)
           (int (length films) - 1)))\<rparr>"
    using search_next_page_ctx [OF fp ne, of searcher lib reply' now' user_id] p by simp
  have np: "ctx (fst (search_prev_page searcher lib reply' now' user_id
                 (fst (search_next_page searcher lib reply now user_id w)))) =
       (ctx w)\<lparr>data_page := Some (max 0 (min
           (max 0 (max 0 (min (page + 1) (int (length films) - 1)) - 1))
           (int (length films) - 1)))\<rparr>"
    using search_prev_page_ctx [OF fn ne, of searcher lib reply' now' user_id] n by simp
  show ?thesis
    unfolding Let_def
    using one
    by (auto simp add: p n pn np data_page_same [OF pg] max_def min_def)
qed

text \<open>
  C1. In each of the three navigation contexts (history, statistics, search results), over
  a fixed non-empty dataset: from an interior page (\<open>0 < page < total_pages - 1\<close>) the
  handler for "previous" followed by the handler for "next", and the handler for "next"
  followed by the handler for "previous", leave the stored state as it was; the handler
  for "previous" at page 0 leaves it as it was; and the handler for "next" at the last
  page, whose render clamps the page, leaves it as it was.
\<close>

theorem prev_next_round_trip:
  "(get_user_history session user_id None \<noteq> [] \<and> data_page state = Some page \<longrightarrow>
      (let total_pages = (int (length (get_user_history session user_id None)) + 20 - 1) div 20
       in (0 < page \<and> page < total_pages - 1 \<longrightarrow>
             fst (history_next_page user_id session
                   (fst (history_prev_page user_id session state))) = state
             \<and> fst (history_prev_page user_id session
                   (fst (history_next_page user_id session state))) = state)
          \<and> (page = 0 \<longrightarrow> fst (history_prev_page user_id session state) = state)
          \<and> (page = total_pages - 1 \<longrightarrow>
               fst (history_next_page user_id session state) = state)))
   \<and> (get_user_stats session user_id \<noteq> [] \<and> data_page state = Some page \<longrightarrow>
      (let total_pages = (int (length (get_user_stats session user_id)) + 20 - 1) div 20
       in (0 < page \<and> page < total_pages - 1 \<longrightarrow>
             fst (stats_next_page user_id session
                   (fst (stats_prev_page user_id session state))) = state
             \<and> fst (stats_prev_page user_id session
                   (fst (stats_next_page user_id session state))) = state)
          \<and> (page = 0 \<longrightarrow> fst (stats_prev_page user_id session state) = state)
          \<and> (page = total_pages - 1 \<longrightarrow>
               fst (stats_next_page user_id session state) = state)))
   \<and> (data_film_info (ctx w) = Some films \<and> films \<noteq> [] \<and> data_page (ctx w) = Some page \<longrightarrow>
      (let total_pages = int (length films)
       in (0 < page \<and> page < total_pages - 1 \<longrightarrow>
             ctx (fst (search_next_page searcher lib reply' now' user_id
                   (fst (search_prev_page searcher lib reply now user_id w)))) = ctx w
             \<and> ctx (fst (search_prev_page searcher lib reply' now' user_id
                   (fst (search_next_page searcher lib reply now user_id w)))) = ctx w)
          \<and> (page = 0 \<longrightarrow>
               ctx (fst (search_prev_page searcher lib reply now user_id w)) = ctx w)
          \<and> (page = total_pages - 1 \<longrightarrow>
               ctx (fst (search_next_page searcher lib reply now user_id w)) = ctx w)))"
proof (intro conjI impI)
  assume "get_user_history session user_id None \<noteq> [] \<and> data_page state = Some page"
  then show "let total_pages = (int (length (get_user_history session user_id None)) + 20 - 1) div 20
       in (0 < page \<and> page < total_pages - 1 \<longrightarrow>
             fst (history_next_page user_id session
                   (fst (history_prev_page user_id session state))) = state
             \<and> fst (history_prev_page user_id session
                   (fst (history_next_page user_id session state))) = state)
          \<and> (page = 0 \<longrightarrow> fst (history_prev_page user_id session state) = state)
          \<and> (page = total_pages - 1 \<longrightarrow>
               fst (history_next_page user_id session state) = state)"
    using history_round_trip [of session user_id state page] by blast
next
  assume "get_user_stats session user_id \<noteq> [] \<and> data_page state = Some page"
  then show "let total_pages = (int (length (get_user_stats session user_id)) + 20 - 1) div 20
       in (0 < page \<and> page < total_pages - 1 \<longrightarrow>
             fst (stats_next_page user_id session
                   (fst (stats_prev_page user_id session state))) = state
             \<and> fst (stats_prev_page user_id session
                   (fst (stats_next_page user_id session state))) = state)
          \<and> (page = 0 \<longrightarrow> fst (stats_prev_page user_id session state) = state)
          \<and> (page = total_pages - 1 \<longrightarrow>
               fst (stats_next_page user_id session state) = state)"
    using stats_round_trip [of session user_id state page] by blast
next
  assume "data_film_info (ctx w) = Some films \<and> films \<noteq> [] \<and> data_page (ctx w) = Some page"
  then show "let total_pages = int (length films)
       in (0 < page \<and> page < total_pages - 1 \<longrightarrow>
             ctx (fst (search_next_page searcher lib reply' now' user_id
                   (fst (search_prev_page searcher lib reply now user_id w)))) = ctx w
             \<and> ctx (fst (search_prev_page searcher lib reply' now' user_id
                   (fst (search_next_page searcher lib reply now user_id w)))) = ctx w)
          \<and> (page = 0 \<longrightarrow>
               ctx (fst (search_prev_page searcher lib reply now user_id w)) = ctx w)
          \<and> (page = total_pages - 1 \<longrightarrow>
               ctx (fst (search_next_page searcher lib reply now user_id w)) = ctx w)"
    using search_round_trip [of w films page searcher lib reply' now' user_id reply now]
    by blast
qed

theorem prev_next_round_trip_witness:
  "get_user_history sample_long_session 7 None \<noteq> []
   \<and> (int (length (get_user_history sample_long_session 7 None)) + 20 - 1) div 20 = 3
   \<and> fst (history_next_page 7 sample_long_session
           (fst (history_prev_page 7 sample_long_session (sample_state\<lparr>data_page := Some 1\<rparr>))))
       = sample_state\<lparr>data_page := Some 1\<rparr>
   \<and> fst (history_prev_page 7 sample_long_session
           (fst (history_next_page 7 sample_long_session (sample_state\<lparr>data_page := Some 1\<rparr>))))
       = sample_state\<lparr>data_page := Some 1\<rparr>
   \<and> fst (history_prev_page 7 sample_long_session (sample_state\<lparr>data_page := Some 0\<rparr>))
       = sample_state\<lparr>data_page := Some 0\<rparr>
   \<and> fst (history_next_page 7 sample_long_session (sample_state\<lparr>data_page := Some 2\<rparr>))
       = sample_state\<lparr>data_page := Some 2\<rparr>
   \<and> get_user_stats sample_session 7 \<noteq> []
   \<and> fst (stats_prev_page 7 sample_session (sample_state\<lparr>data_page := Some 0\<rparr>))
       = sample_state\<lparr>data_page := Some 0\<rparr>
   \<and> fst (stats_next_page 7 sample_session (sample_state\<lparr>data_page := Some 0\<rparr>))
       = sample_state\<lparr>data_page := Some 0\<rparr>
   \<and> ctx (fst (search_next_page sample_searcher sample_lib (FilmixPage 200 []) 11 7
           (fst (search_prev_page sample_searcher sample_lib (FilmixPage 200 []) 10 7
                  (sample_bot 1))))) = ctx (sample_bot 1)
   \<and> ctx (fst (search_prev_page sample_searcher sample_lib (FilmixPage 200 []) 11 7
           (fst (search_next_page sample_searcher sample_lib (FilmixPage 200 []) 10 7
                  (sample_bot 1))))) = ctx (sample_bot 1)
   \<and> ctx (fst (search_prev_page sample_searcher sample_lib (FilmixPage 200 []) 10 7
           (sample_bot 0))) = ctx (sample_bot 0)
   \<and> ctx (fst (search_next_page sample_searcher sample_lib (FilmixPage 200 []) 10 7
           (sample_bot 2))) = ctx (sample_bot 2)"
proof -
  have len: "length (get_user_history sample_long_session 7 None) = 41"
    by (simp add: get_user_history_def sample_long_session_def)
  then have ne: "get_user_history sample_long_session 7 None \<noteq> []" by auto
  have st: "get_user_stats sample_session 7
      = [(PStr ''Venom'', PStr ''2018'', 1)]"
    by (simp add: get_user_stats_def sample_session_def)
  have films: "length sample_films = 3" by (simp add: sample_films_def)
  have ctxs: "data_film_info (ctx (sample_bot p)) = Some sample_films"
      "data_page (ctx (sample_bot p)) = Some p" for p
    by (simp_all add: sample_bot_def)
  have fne: "sample_films \<noteq> []" using films by auto
  show ?thesis
    using ne len st films fne
      prev_next_round_trip [where session = sample_long_session and user_id = 7
        and state = "sample_state\<lparr>data_page := Some 1\<rparr>" and page = 1
        and w = "sample_bot 1" and films = sample_films and searcher = sample_searcher
        and lib = sample_lib and reply = "FilmixPage 200 []" and reply' = "FilmixPage 200 []"
        and now = 10 and now' = 11]
      prev_next_round_trip [where session = sample_long_session and user_id = 7
        and state = "sample_state\<lparr>data_page := Some 0\<rparr>" and page = 0
        and w = "sample_bot 0" and films = sample_films and searcher = sample_searcher
        and lib = sample_lib and reply = "FilmixPage 200 []" and reply' = "FilmixPage 200 []"
        and now = 10 and now' = 11]
      prev_next_round_trip [where session = sample_long_session and user_id = 7
        and state = "sample_state\<lparr>data_page := Some 2\<rparr>" and page = 2
        and w = "sample_bot 2" and films = sample_films and searcher = sample_searcher
        and lib = sample_lib and reply = "FilmixPage 200 []" and reply' = "FilmixPage 200 []"
        and now = 10 and now' = 11]
      prev_next_round_trip [where session = sample_session and user_id = 7
        and state = "sample_state\<lparr>data_page := Some 0\<rparr>" and page = 0
        and w = "sample_bot 0" and films = sample_films and searcher = sample_searcher
        and lib = sample_lib and reply = "FilmixPage 200 []" and reply' = "FilmixPage 200 []"
        and now = 10 and now' = 11]
    by (simp add: Let_def ctxs)
qed

section \<open>The rendered page\<close>



section \<open>Navigation controls\<close>

lemma keyboard_shape:
  "create_pagination_keyboard page total_pages prefix =
     (if page > 0 \<or> page < total_pages - 1
      then Some [(if page > 0 then [prev_button prefix] else [])
                 @ (if page < total_pages - 1 then [next_button prefix] else [])]
      else None)"
  by (simp add: create_pagination_keyboard_def prev_button_def next_button_def Let_def)

lemma arrows_differ: "prev_button prefix \<noteq> next_button prefix"
  by (simp add: prev_button_def next_button_def)

lemma history_markup:
  "markup_of (hd (snd (show_history_page is_callback user_id session state))) =
     (if get_user_history session user_id None = [] then None
      else create_pagination_keyboard
             (the (data_page (fst (show_history_page is_callback user_id session state))))
             ((int (length (get_user_history session user_id None)) + 20 - 1) div 20)
             ''history'')"
  by (simp add: show_history_page_def create_pagination_keyboard_def Let_def)

lemma stats_markup:
  "markup_of (hd (snd (show_stats_page is_callback user_id session state))) =
     (if get_user_stats session user_id = [] then None
      else create_pagination_keyboard
             (the (data_page (fst (show_stats_page is_callback user_id session state))))
             ((int (length (get_user_stats session user_id)) + 20 - 1) div 20)
             ''stats'')"
  by (simp add: show_stats_page_def create_pagination_keyboard_def Let_def)

lemma search_markup:
  assumes "data_film_info (ctx w) = Some films" "films \<noteq> []"
    and "snd (show_search_page searcher lib reply now is_callback user_id w) = None"
  shows "sent (fst (show_search_page searcher lib reply now is_callback user_id w))
           = sent w @ [last (sent (fst (show_search_page searcher lib reply now is_callback
                                          user_id w)))]
     \<and> markup_of (last (sent (fst (show_search_page searcher lib reply now is_callback
                                    user_id w))))
         = create_pagination_keyboard
             (max 0 (min (stored_page (ctx w)) (int (length films) - 1)))
             (int (length films)) ''search''"
  using assms
  by (auto simp add: show_search_page_def stored_page_def Let_def
      split: prod.splits sum.splits)

lemma search_markup_empty:
  assumes "data_film_info (ctx w) = None \<or> data_film_info (ctx w) = Some []"
  shows "list_all (\<lambda>c. markup_of c = None)
           (drop (length (sent w))
              (sent (fst (show_search_page searcher lib reply now is_callback user_id w))))"
  using assms by (auto simp add: show_search_page_def Let_def)

text \<open>
  C3. For every page index and number of pages, the keyboard built by
  \<open>create_pagination_keyboard\<close> holds the "previous" button exactly when \<open>page > 0\<close> and
  the "next" button exactly when \<open>page < total_pages - 1\<close>, holds no other button, and
  is absent altogether exactly when neither condition holds, as for the only page of a
  single-page dataset. The keyboards of the history and statistics pages are the same
  keyboard for their page and number of pages. A search render that runs to its end sends
  one message, whose keyboard is \<open>create_pagination_keyboard\<close> at the clamped page,
  the number of films and the prefix \<open>search\<close>; the renders of an empty dataset
  send no keyboard.
\<close>

theorem navigation_controls:
  "((prev_button prefix \<in> set (buttons (create_pagination_keyboard page total_pages prefix)))
      = (page > 0))
   \<and> ((next_button prefix \<in> set (buttons (create_pagination_keyboard page total_pages prefix)))
      = (page < total_pages - 1))
   \<and> set (buttons (create_pagination_keyboard page total_pages prefix))
        \<subseteq> {prev_button prefix, next_button prefix}
   \<and> ((create_pagination_keyboard page total_pages prefix = None)
      = (\<not> page > 0 \<and> \<not> page < total_pages - 1))
   \<and> create_pagination_keyboard 0 1 prefix = None
   \<and> markup_of (hd (snd (show_history_page is_callback user_id session state))) =
       (if get_user_history session user_id None = [] then None
        else create_pagination_keyboard
               (the (data_page (fst (show_history_page is_callback user_id session state))))
               ((int (length (get_user_history session user_id None)) + 20 - 1) div 20)
               ''history'')
   \<and> markup_of (hd (snd (show_stats_page is_callback user_id session state))) =
       (if get_user_stats session user_id = [] then None
        else create_pagination_keyboard
               (the (data_page (fst (show_stats_page is_callback user_id session state))))
               ((int (length (get_user_stats session user_id)) + 20 - 1) div 20)
               ''stats'')
   \<and> (data_film_info (ctx w) = Some films \<and> films \<noteq> []
        \<and> snd (show_search_page searcher lib reply now is_callback user_id w) = None \<longrightarrow>
        sent (fst (show_search_page searcher lib reply now is_callback user_id w))
          = sent w @ [last (sent (fst (show_search_page searcher lib reply now is_callback
                                         user_id w)))]
        \<and> markup_of (last (sent (fst (show_search_page searcher lib reply now is_callback
                                       user_id w))))
            = create_pagination_keyboard
                (max 0 (min (stored_page (ctx w)) (int (length films) - 1)))
                (int (length films)) ''search'')
   \<and> (data_film_info (ctx w) = None \<or> data_film_info (ctx w) = Some [] \<longrightarrow>
        list_all (\<lambda>c. markup_of c = None)
          (drop (length (sent w))
             (sent (fst (show_search_page searcher lib reply now is_callback user_id w)))))"
proof -
  have "set (buttons (create_pagination_keyboard page total_pages prefix))
          \<subseteq> {prev_button prefix, next_button prefix}"
    by (auto simp add: keyboard_shape buttons_def)
  moreover have "(prev_button prefix
        \<in> set (buttons (create_pagination_keyboard page total_pages prefix))) = (page > 0)"
    using arrows_differ [of prefix] by (auto simp add: keyboard_shape buttons_def)
  moreover have "(next_button prefix
        \<in> set (buttons (create_pagination_keyboard page total_pages prefix)))
        = (page < total_pages - 1)"
    using arrows_differ [of prefix] by (auto simp add: keyboard_shape buttons_def)
  moreover have "(create_pagination_keyboard page total_pages prefix = None)
        = (\<not> page > 0 \<and> \<not> page < total_pages - 1)"
    by (simp add: keyboard_shape)
  moreover have "create_pagination_keyboard 0 1 prefix = None"
    by (simp add: keyboard_shape)
  moreover have "data_film_info (ctx w) = Some films \<and> films \<noteq> []
        \<and> snd (show_search_page searcher lib reply now is_callback user_id w) = None \<longrightarrow>
        sent (fst (show_search_page searcher lib reply now is_callback user_id w))
          = sent w @ [last (sent (fst (show_search_page searcher lib reply now is_callback
                                         user_id w)))]
        \<and> markup_of (last (sent (fst (show_search_page searcher lib reply now is_callback
                                       user_id w))))
            = create_pagination_keyboard
                (max 0 (min (stored_page (ctx w)) (int (length films) - 1)))
                (int (length films)) ''search''"
    using search_markup [of w films searcher lib reply now is_callback user_id] by blast
  moreover have "data_film_info (ctx w) = None \<or> data_film_info (ctx w) = Some [] \<longrightarrow>
        list_all (\<lambda>c. markup_of c = None)
          (drop (length (sent w))
             (sent (fst (show_search_page searcher lib reply now is_callback user_id w))))"
    using search_markup_empty [of w searcher lib reply now is_callback user_id] by blast
  ultimately show ?thesis
    using history_markup [of is_callback user_id session state]
      stats_markup [of is_callback user_id session state]
    by blast
qed

text \<open>
  The middle, last and first of three pages, a single page, and the search render of the
  middle film of three, which sends both buttons.
\<close>

theorem navigation_controls_witness:
  "prev_button ''search'' \<in> set (buttons (create_pagination_keyboard 1 3 ''search''))
   \<and> next_button ''search'' \<in> set (buttons (create_pagination_keyboard 1 3 ''search''))
   \<and> next_button ''search'' \<notin> set (buttons (create_pagination_keyboard 2 3 ''search''))
   \<and> prev_button ''search'' \<notin> set (buttons (create_pagination_keyboard 0 3 ''search''))
   \<and> create_pagination_keyboard 0 1 ''search'' = None
   \<and> data_film_info (ctx (sample_bot 1)) = Some sample_films \<and> sample_films \<noteq> []
   \<and> snd (show_search_page sample_searcher sample_lib (FilmixPage 200 []) 10 True 7
           (sample_bot 1)) = None
   \<and> markup_of (last (sent (fst (show_search_page sample_searcher sample_lib
           (FilmixPage 200 []) 10 True 7 (sample_bot 1)))))
       = Some [[prev_button ''search'', next_button ''search'']]"
proof -
  have f: "data_film_info (ctx (sample_bot 1)) = Some sample_films"
      "stored_page (ctx (sample_bot 1)) = 1"
    by (simp_all add: sample_bot_def stored_page_def)
  have len: "length sample_films = 3" by (simp add: sample_films_def)
  then have ne: "sample_films \<noteq> []" by auto
  have ok: "snd (show_search_page sample_searcher sample_lib (FilmixPage 200 []) 10 True 7
           (sample_bot 1)) = None"
    by (simp add: show_search_page_def sample_bot_def sample_films_def sample_searcher_def
        get_film_caption_def fetch_movie_links_def dict_has_def dict_get_def unpack3_def
        Let_def)
  have kb: "create_pagination_keyboard 1 3 ''search''
      = Some [[prev_button ''search'', next_button ''search'']]"
    by (simp add: keyboard_shape)
  show ?thesis
    using f len ne ok kb
      navigation_controls [where prefix = "''search''" and page = 1 and total_pages = 3
        and w = "sample_bot 1" and films = sample_films and searcher = sample_searcher
        and lib = sample_lib and reply = "FilmixPage 200 []" and now = 10
        and is_callback = True and user_id = 7]
      navigation_controls [where prefix = "''search''" and page = 2 and total_pages = 3]
      navigation_controls [where prefix = "''search''" and page = 0 and total_pages = 3]
      navigation_controls [where prefix = "''search''" and page = 0 and total_pages = 1]
    by simp
qed

section \<open>The cap on candidates\<close>

text \<open>
  The claim C4 as stated, "for every provider response the service returns at most
  \<open>movie_cap\<close> candidates", fails for \<open>movie_cap = 0\<close>: a provider answer with no films
  yields the one NotFound candidate.
\<close>

theorem fetch_movies_cap_counterexample:
  "snd (fetch_movies \<lparr>kinopoisk_unofficial_api_key = ''key'', links_cap = 1, movie_cap = 0\<rparr>
          ''qwerty'' (Inr \<lparr>status = 200, json_body = JsonObject (Some [])\<rparr>) (Inl OtherError))
     = Inr [[(''error'', PStr FILM_NOT_FOUND)]]
   \<and> \<not> int (length [[(''error'', PStr FILM_NOT_FOUND)]])
         \<le> movie_cap \<lparr>kinopoisk_unofficial_api_key = ''key'', links_cap = 1, movie_cap = 0\<rparr>"
  by (simp add: fetch_movies_def Let_def)

text \<open>
  C4, amended. With \<open>movie_cap \<ge> 1\<close> the film lookup returns at most \<open>movie_cap\<close>
  candidates. With \<open>movie_cap \<ge> 0\<close> and a provider answer (status 200, or the answered
  retry after a 429) that lists at least one film, the result is exactly the first
  \<open>movie_cap\<close> films in the provider's order. A provider answer with an empty or absent
  film list, and any status other than 200 and 429, yields exactly the one-element list
  holding the NotFound error candidate with the message "Film not found" (in Russian),
  whatever \<open>movie_cap\<close> is.
\<close>

theorem fetch_movies_capped:
  "(1 \<le> movie_cap self \<and> snd (fetch_movies self query resp retry_resp) = Inr out
      \<longrightarrow> int (length out) \<le> movie_cap self)
   \<and> (0 \<le> movie_cap self \<and> films \<noteq> [] \<longrightarrow>
        snd (fetch_movies self query
               (Inr \<lparr>status = 200, json_body = JsonObject (Some films)\<rparr>) retry_resp)
          = Inr (take (nat (movie_cap self)) films))
   \<and> (0 \<le> movie_cap self \<and> films \<noteq> [] \<and> status response = 429
        \<and> json_body retry_response = JsonObject (Some films) \<longrightarrow>
        snd (fetch_movies self query (Inr response) (Inr retry_response))
          = Inr (take (nat (movie_cap self)) films))
   \<and> snd (fetch_movies self query
            (Inr \<lparr>status = 200, json_body = JsonObject (Some [])\<rparr>) retry_resp)
        = Inr not_found
   \<and> snd (fetch_movies self query
            (Inr \<lparr>status = 200, json_body = JsonObject None\<rparr>) retry_resp)
        = Inr not_found
   \<and> (status response \<noteq> 200 \<and> status response \<noteq> 429 \<longrightarrow>
        snd (fetch_movies self query (Inr response) retry_resp) = Inr not_found)
   \<and> not_found = [[(''error'', PStr FILM_NOT_FOUND)]]"
proof (intro conjI impI)
  assume a: "1 \<le> movie_cap self \<and> snd (fetch_movies self query resp retry_resp) = Inr out"
  then consider "out = not_found"
    | fs where "fs \<noteq> []" "out = py_slice_to fs (movie_cap self)"
    using fetch_movies_result [of self query resp retry_resp out] by blast
  then show "int (length out) \<le> movie_cap self"
  proof cases
    case 1
    then show ?thesis using a by (simp add: not_found_def)
  next
    case 2
    then show ?thesis using a length_py_slice_to [of "movie_cap self" fs] by simp
  qed
next
  assume "0 \<le> movie_cap self \<and> films \<noteq> []"
  then show "snd (fetch_movies self query
               (Inr \<lparr>status = 200, json_body = JsonObject (Some films)\<rparr>) retry_resp)
          = Inr (take (nat (movie_cap self)) films)"
    by (simp add: fetch_movies_ok films_result_def py_slice_to_take)
next
  assume "0 \<le> movie_cap self \<and> films \<noteq> [] \<and> status response = 429
        \<and> json_body retry_response = JsonObject (Some films)"
  then show "snd (fetch_movies self query (Inr response) (Inr retry_response))
          = Inr (take (nat (movie_cap self)) films)"
    by (simp add: fetch_movies_429 films_result_def py_slice_to_take)
next
  show "snd (fetch_movies self query
            (Inr \<lparr>status = 200, json_body = JsonObject (Some [])\<rparr>) retry_resp)
        = Inr not_found"
    by (simp add: fetch_movies_ok films_result_def)
next
  show "snd (fetch_movies self query
            (Inr \<lparr>status = 200, json_body = JsonObject None\<rparr>) retry_resp)
        = Inr not_found"
    by (simp add: fetch_movies_ok films_result_def)
next
  assume "status response \<noteq> 200 \<and> status response \<noteq> 429"
  then show "snd (fetch_movies self query (Inr response) retry_resp) = Inr not_found"
    by (simp add: fetch_movies_def not_found_def Let_def)
next
  show "not_found = [[(''error'', PStr FILM_NOT_FOUND)]]" by (simp add: not_found_def)
qed

text \<open>Scenario A of the specification: five films from the provider, three candidates.\<close>

theorem fetch_movies_capped_witness:
  "1 \<le> movie_cap sample_searcher
   \<and> snd (fetch_movies sample_searcher ''Interstellar''
           (Inr \<lparr>status = 200, json_body = JsonObject (Some
              [[(''filmId'', PInt 1)], [(''filmId'', PInt 2)], [(''filmId'', PInt 3)],
               [(''filmId'', PInt 4)], [(''filmId'', PInt 5)]])\<rparr>) (Inl OtherError))
       = Inr [[(''filmId'', PInt 1)], [(''filmId'', PInt 2)], [(''filmId'', PInt 3)]]
   \<and> snd (fetch_movies sample_searcher ''Interstellar''
           (Inr \<lparr>status = 403, json_body = BadBody ValueError\<rparr>) (Inl OtherError))
       = Inr [[(''error'', PStr FILM_NOT_FOUND)]]"
proof -
  have cap: "movie_cap sample_searcher = 3" by (simp add: sample_searcher_def)
  show ?thesis
    using cap
      fetch_movies_capped [where self = sample_searcher and query = "''Interstellar''"
        and films = "[[(''filmId'', PInt 1)], [(''filmId'', PInt 2)], [(''filmId'', PInt 3)],
               [(''filmId'', PInt 4)], [(''filmId'', PInt 5)]]"
        and retry_resp = "Inl OtherError"
        and response = "\<lparr>status = 403, json_body = BadBody ValueError\<rparr>"]
    by (simp add: numeral_3_eq_3)
qed

section \<open>Rate limiting\<close>

text \<open>
  The claim C5 as stated, "if the retry also fails or yields no usable body, the service
  proceeds with whatever was parsed rather than aborting", fails when the body of the
  retry cannot be parsed: the exception is logged and raised again, so the lookup ends with
  the exception and not with the NotFound candidate.
\<close>

theorem rate_limit_retry_counterexample:
  "fetch_movies sample_searcher ''venom''
     (Inr \<lparr>status = 429, json_body = BadBody ValueError\<rparr>)
     (Inr \<lparr>status = 429, json_body = BadBody ClientError\<rparr>)
     = ([HttpGet BASE_KINOPOISKAPI_URL ''venom'', Sleep_ms 500,
         HttpGet BASE_KINOPOISKAPI_URL ''venom'', LogException], Inl ClientError)
   \<and> snd (fetch_movies sample_searcher ''venom''
           (Inr \<lparr>status = 429, json_body = BadBody ValueError\<rparr>)
           (Inr \<lparr>status = 429, json_body = BadBody ClientError\<rparr>))
       \<noteq> Inr [[(''error'', PStr FILM_NOT_FOUND)]]"
  by (simp add: fetch_movies_def Let_def)

text \<open>
  C5, amended. When the provider answers 429, the film lookup sleeps 500 ms and sends the
  request once more, and never a third time: its trace starts with request, sleep,
  request, and holds exactly two requests and that one sleep. The status of the retry is
  not looked at: if its body parses, the lookup goes on with it (an absent or empty film
  list gives the NotFound candidate, otherwise the films up to the cap); if the retry
  raises, or its body does not parse, the exception is logged and raised to the caller.
  For any other status there is one request and no sleep.
\<close>

theorem rate_limit_retry:
  "(status response = 429 \<longrightarrow>
      take 3 (fst (fetch_movies self query (Inr response) retry_resp))
        = [HttpGet BASE_KINOPOISKAPI_URL query, Sleep_ms 500,
           HttpGet BASE_KINOPOISKAPI_URL query]
      \<and> length (filter is_get (fst (fetch_movies self query (Inr response) retry_resp))) = 2
      \<and> filter is_sleep (fst (fetch_movies self query (Inr response) retry_resp))
          = [Sleep_ms 500]
      \<and> (retry_resp = Inl e \<longrightarrow>
            snd (fetch_movies self query (Inr response) retry_resp) = Inl e)
      \<and> (retry_resp = Inr retry_response \<and> json_body retry_response = BadBody e \<longrightarrow>
            snd (fetch_movies self query (Inr response) retry_resp) = Inl e)
      \<and> (retry_resp = Inr retry_response \<and> json_body retry_response = JsonObject data \<longrightarrow>
            snd (fetch_movies self query (Inr response) retry_resp)
              = Inr (case data of
                       None \<Rightarrow> not_found
                     | Some films \<Rightarrow> if films = [] then not_found
                                    else py_slice_to films (movie_cap self))))
   \<and> (status response \<noteq> 429 \<longrightarrow>
      length (filter is_get (fst (fetch_movies self query (Inr response) retry_resp))) = 1
      \<and> filter is_sleep (fst (fetch_movies self query (Inr response) retry_resp)) = [])"
proof (intro conjI impI)
  assume s: "status response = 429"
  show "take 3 (fst (fetch_movies self query (Inr response) retry_resp))
        = [HttpGet BASE_KINOPOISKAPI_URL query, Sleep_ms 500,
           HttpGet BASE_KINOPOISKAPI_URL query]"
    by (simp add: fetch_movies_429 [OF s] split: sum.splits json_result.splits)
  show "length (filter is_get (fst (fetch_movies self query (Inr response) retry_resp))) = 2"
    by (simp add: fetch_movies_429 [OF s] split: sum.splits json_result.splits)
  show "filter is_sleep (fst (fetch_movies self query (Inr response) retry_resp))
          = [Sleep_ms 500]"
    by (simp add: fetch_movies_429 [OF s] split: sum.splits json_result.splits)
  {
    assume "retry_resp = Inl e"
    then show "snd (fetch_movies self query (Inr response) retry_resp) = Inl e"
      by (simp add: fetch_movies_429 [OF s])
  }
  {
    assume "retry_resp = Inr retry_response \<and> json_body retry_response = BadBody e"
    then show "snd (fetch_movies self query (Inr response) retry_resp) = Inl e"
      by (simp add: fetch_movies_429 [OF s])
  }
  {
    assume "retry_resp = Inr retry_response \<and> json_body retry_response = JsonObject data"
    then show "snd (fetch_movies self query (Inr response) retry_resp)
              = Inr (case data of
                       None \<Rightarrow> not_found
                     | Some films \<Rightarrow> if films = [] then not_found
                                    else py_slice_to films (movie_cap self))"
      by (simp add: fetch_movies_429 [OF s] films_result_def)
  }
next
  assume "status response \<noteq> 429"
  then show "length (filter is_get (fst (fetch_movies self query (Inr response) retry_resp))) = 1"
    using fetch_movies_no_retry by blast
next
  assume "status response \<noteq> 429"
  then show "filter is_sleep (fst (fetch_movies self query (Inr response) retry_resp)) = []"
    using fetch_movies_no_retry by blast
qed

text \<open>
  Scenario D of the specification: a 429, then a retry that lists two films; and a retry
  that is itself answered 429 with a JSON body without films.
\<close>

theorem rate_limit_retry_witness:
  "status \<lparr>status = 429, json_body = BadBody ValueError\<rparr> = 429
   \<and> length (filter is_get (fst (fetch_movies sample_searcher ''venom''
         (Inr \<lparr>status = 429, json_body = BadBody ValueError\<rparr>)
         (Inr \<lparr>status = 200, json_body = JsonObject (Some
            [[(''filmId'', PInt 1)], [(''filmId'', PInt 2)]])\<rparr>)))) = 2
   \<and> snd (fetch_movies sample_searcher ''venom''
         (Inr \<lparr>status = 429, json_body = BadBody ValueError\<rparr>)
         (Inr \<lparr>status = 200, json_body = JsonObject (Some
            [[(''filmId'', PInt 1)], [(''filmId'', PInt 2)]])\<rparr>))
       = Inr [[(''filmId'', PInt 1)], [(''filmId'', PInt 2)]]
   \<and> snd (fetch_movies sample_searcher ''venom''
         (Inr \<lparr>status = 429, json_body = BadBody ValueError\<rparr>)
         (Inr \<lparr>status = 429, json_body = JsonObject None\<rparr>))
       = Inr [[(''error'', PStr FILM_NOT_FOUND)]]
   \<and> snd (fetch_movies sample_searcher ''venom''
         (Inr \<lparr>status = 429, json_body = BadBody ValueError\<rparr>) (Inl TimeoutError))
       = Inl TimeoutError"
  using
    rate_limit_retry [where response = "\<lparr>status = 429, json_body = BadBody ValueError\<rparr>"
      and self = sample_searcher and query = "''venom''"
      and retry_resp = "Inr \<lparr>status = 200, json_body = JsonObject (Some
            [[(''filmId'', PInt 1)], [(''filmId'', PInt 2)]])\<rparr>"
      and retry_response = "\<lparr>status = 200, json_body = JsonObject (Some
            [[(''filmId'', PInt 1)], [(''filmId'', PInt 2)]])\<rparr>"
      and data = "Some [[(''filmId'', PInt 1)], [(''filmId'', PInt 2)]]"]
    rate_limit_retry [where response = "\<lparr>status = 429, json_body = BadBody ValueError\<rparr>"
      and self = sample_searcher and query = "''venom''"
      and retry_resp = "Inr \<lparr>status = 429, json_body = JsonObject None\<rparr>"
      and retry_response = "\<lparr>status = 429, json_body = JsonObject None\<rparr>"
      and data = None]
    rate_limit_retry [where response = "\<lparr>status = 429, json_body = BadBody ValueError\<rparr>"
      and self = sample_searcher and query = "''venom''"
      and retry_resp = "Inl TimeoutError" and e = TimeoutError]
  by (simp add: not_found_def py_slice_to_def sample_searcher_def)

section \<open>The cap on links\<close>

text \<open>
  C6 says that for every configured \<open>links_cap\<close> the resolver returns at most
  \<open>links_cap\<close> links, and the constructor documents \<open>links_cap\<close> as the maximum number
  of links to retrieve. The cap is tested only before the secondary source is consulted:
  the primary link is appended before it. With \<open>links_cap = 0\<close> and a candidate that
  carries an identifier the resolver returns one link, more than the cap allows.
\<close>

theorem primary_link_exceeds_zero_cap:
  "fetch_movie_links
     \<lparr>kinopoisk_unofficial_api_key = ''key'', links_cap = 0, movie_cap = 3\<rparr>
     sample_lib [(''filmId'', PInt 1)] (FilmixPage 200 [])
     = ([], Inr [''https://sspoisk.ru/film/1/''])
   \<and> \<not> int (length [''https://sspoisk.ru/film/1/''])
         \<le> links_cap \<lparr>kinopoisk_unofficial_api_key = ''key'', links_cap = 0, movie_cap = 3\<rparr>"
  by (simp add: fetch_movie_links_def dict_get_def BASE_SSPOISK_URL_def str_int_def
      digits.simps Let_def)

text \<open>
  Everywhere else the bound holds. With \<open>links_cap \<ge> 1\<close> the resolver returns at most
  \<open>links_cap\<close> links (and never more than two), and with \<open>links_cap \<le> 0\<close> and no
  identifier it returns none. When the candidate's \<open>filmId\<close> is truthy the first link
  returned is the primary URL
  \<open>BASE_SSPOISK_URL + ("series" if serial else "film") + "/" + filmId + "/"\<close>, and with
  \<open>links_cap \<le> 1\<close> it is the only link and no request is made.
\<close>

lemma link_resolver_capped:
  "(1 \<le> links_cap self \<and> snd (fetch_movie_links self lib movie reply) = Inr links \<longrightarrow>
      int (length links) \<le> links_cap self \<and> length links \<le> 2)
   \<and> (truthy (dict_get movie ''filmId'' PNone)
       \<and> snd (fetch_movie_links self lib movie reply) = Inr links \<longrightarrow>
      links \<noteq> [] \<and> hd links = primary_link movie)
   \<and> (truthy (dict_get movie ''filmId'' PNone) \<and> links_cap self \<le> 1 \<longrightarrow>
      fetch_movie_links self lib movie reply = ([], Inr [primary_link movie]))
   \<and> (\<not> truthy (dict_get movie ''filmId'' PNone) \<and> links_cap self \<le> 0 \<longrightarrow>
      fetch_movie_links self lib movie reply = ([], Inr []))
   \<and> primary_link movie =
       BASE_SSPOISK_URL
       @ (if truthy (dict_get movie ''serial'' (PBool False)) then ''series'' else ''film'')
       @ ''/'' @ py_format (dict_get movie ''filmId'' PNone) @ ''/''"
proof -
  have adds: "links = [primary_link movie] \<or>
        (1 < links_cap self \<and> (\<exists>x. links = [primary_link movie, x]))"
    if "truthy (dict_get movie ''filmId'' PNone)"
      and "snd (fetch_movie_links self lib movie reply) = Inr links"
    using that fetch_movie_links_adds [of self lib movie reply links]
    by (simp add: Let_def)
  have adds': "links = [] \<or> (0 < links_cap self \<and> (\<exists>x. links = [x]))"
    if "\<not> truthy (dict_get movie ''filmId'' PNone)"
      and "snd (fetch_movie_links self lib movie reply) = Inr links"
    using that fetch_movie_links_adds [of self lib movie reply links]
    by (simp add: Let_def)
  have c1: "int (length links) \<le> links_cap self \<and> length links \<le> 2"
    if "1 \<le> links_cap self \<and> snd (fetch_movie_links self lib movie reply) = Inr links"
    using that adds adds' by (cases "truthy (dict_get movie ''filmId'' PNone)") auto
  have c2: "links \<noteq> [] \<and> hd links = primary_link movie"
    if "truthy (dict_get movie ''filmId'' PNone)
       \<and> snd (fetch_movie_links self lib movie reply) = Inr links"
    using that adds by auto
  have c3: "fetch_movie_links self lib movie reply = ([], Inr [primary_link movie])"
    if "truthy (dict_get movie ''filmId'' PNone) \<and> links_cap self \<le> 1"
    using that by (simp add: fetch_movie_links_shape)
  have c5: "fetch_movie_links self lib movie reply = ([], Inr [])"
    if "\<not> truthy (dict_get movie ''filmId'' PNone) \<and> links_cap self \<le> 0"
    using that by (simp add: fetch_movie_links_shape)
  have c4: "primary_link movie =
       BASE_SSPOISK_URL
       @ (if truthy (dict_get movie ''serial'' (PBool False)) then ''series'' else ''film'')
       @ ''/'' @ py_format (dict_get movie ''filmId'' PNone) @ ''/''"
    by (simp add: primary_link_def)
  show ?thesis using c1 c2 c3 c4 c5 by blast
qed

lemma link_resolver_capped_example:
  "1 \<le> links_cap sample_searcher
   \<and> truthy (dict_get [(''filmId'', PInt 77), (''serial'', PBool True)] ''filmId'' PNone)
   \<and> fetch_movie_links sample_searcher sample_lib
        [(''filmId'', PInt 77), (''serial'', PBool True)] (FilmixFail TimeoutError)
      = ([], Inr [''https://sspoisk.ru/series/77/''])"
proof -
  have cap: "links_cap sample_searcher = 1" by (simp add: sample_searcher_def)
  have t: "truthy (dict_get [(''filmId'', PInt 77), (''serial'', PBool True)] ''filmId'' PNone)"
    by (simp add: dict_get_def)
  have p: "primary_link [(''filmId'', PInt 77), (''serial'', PBool True)]
      = ''https://sspoisk.ru/series/77/''"
    by (simp add: primary_link_def dict_get_def BASE_SSPOISK_URL_def str_int_def digits.simps)
  show ?thesis
    using cap t p
      link_resolver_capped [where self = sample_searcher and lib = sample_lib
        and movie = "[(''filmId'', PInt 77), (''serial'', PBool True)]"
        and reply = "FilmixFail TimeoutError"]
    by simp
qed

section \<open>The scan of the secondary listing\<close>

lemma parse_filmix_response_find:
  "parse_filmix_response lib articles links (PStr mt) =
     Inr (links @ (case find (qualifies lib mt) articles of
                     None \<Rightarrow> []
                   | Some a \<Rightarrow> [filmix_link a]))"
  by (induction articles)
     (auto simp add: qualifies_def filmix_link_def Let_def split: option.splits)

lemma find_first:
  "(\<forall>b \<in> set pre. \<not> P b) \<Longrightarrow> P a \<Longrightarrow> find P (pre @ a # post) = Some a"
  by (induction pre) auto

lemma find_none: "(\<forall>b \<in> set xs. \<not> P b) \<Longrightarrow> find P xs = None"
  by (induction xs) auto

text \<open>
  C7. The scan of the secondary source's listing compares the lower-cased title of each
  entry with the lower-cased title of the film by the fuzzy ratio, adds the link of the
  first entry that qualifies (identifier present, title present, ratio at least 30) and
  stops: entries after it do not matter, whatever their ratio. An entry with an
  identifier and a title qualifies exactly when its ratio is at least 30, so 30 is in and
  29 is out. When no entry qualifies, the links are returned as they were. Two film
  titles with the same lower-cased form give the same result.
\<close>

theorem first_match_at_threshold:
  "parse_filmix_response lib articles links (PStr movie_title) =
     Inr (links @ (case find (qualifies lib movie_title) articles of
                     None \<Rightarrow> []
                   | Some a \<Rightarrow> [filmix_link a]))
   \<and> ((\<forall>b \<in> set pre. \<not> qualifies lib movie_title b) \<and> qualifies lib movie_title a \<longrightarrow>
        parse_filmix_response lib (pre @ a # post) links (PStr movie_title)
          = Inr (links @ [filmix_link a]))
   \<and> ((\<forall>b \<in> set articles. \<not> qualifies lib movie_title b) \<longrightarrow>
        parse_filmix_response lib articles links (PStr movie_title) = Inr links)
   \<and> (data_id a = Some movie_id \<and> movie_id \<noteq> [] \<and> name_text a = Some t \<longrightarrow>
        qualifies lib movie_title a
          = (fuzz_ratio lib (lower lib (strip lib t)) (lower lib movie_title) \<ge> 30)
        \<and> filmix_link a = MOVIE_FILMIX_URL @ movie_id)
   \<and> (lower lib movie_title = lower lib movie_title' \<longrightarrow>
        parse_filmix_response lib articles links (PStr movie_title)
          = parse_filmix_response lib articles links (PStr movie_title'))"
proof (intro conjI impI)
  show "parse_filmix_response lib articles links (PStr movie_title) =
     Inr (links @ (case find (qualifies lib movie_title) articles of
                     None \<Rightarrow> []
                   | Some a \<Rightarrow> [filmix_link a]))"
    by (rule parse_filmix_response_find)
next
  assume "(\<forall>b \<in> set pre. \<not> qualifies lib movie_title b) \<and> qualifies lib movie_title a"
  then have "find (qualifies lib movie_title) (pre @ a # post) = Some a"
    by (simp add: find_first)
  then show "parse_filmix_response lib (pre @ a # post) links (PStr movie_title)
          = Inr (links @ [filmix_link a])"
    by (simp add: parse_filmix_response_find)
next
  assume "\<forall>b \<in> set articles. \<not> qualifies lib movie_title b"
  then have "find (qualifies lib movie_title) articles = None"
    by (simp add: find_none)
  then show "parse_filmix_response lib articles links (PStr movie_title) = Inr links"
    by (simp add: parse_filmix_response_find)
next
  assume "data_id a = Some movie_id \<and> movie_id \<noteq> [] \<and> name_text a = Some t"
  then show "qualifies lib movie_title a
          = (fuzz_ratio lib (lower lib (strip lib t)) (lower lib movie_title) \<ge> 30)"
    by (simp add: qualifies_def)
next
  assume "data_id a = Some movie_id \<and> movie_id \<noteq> [] \<and> name_text a = Some t"
  then show "filmix_link a = MOVIE_FILMIX_URL @ movie_id"
    by (simp add: filmix_link_def)
next
  assume "lower lib movie_title = lower lib movie_title'"
  then have "qualifies lib movie_title = qualifies lib movie_title'"
    by (auto simp add: qualifies_def fun_eq_iff split: option.splits)
  then show "parse_filmix_response lib articles links (PStr movie_title)
          = parse_filmix_response lib articles links (PStr movie_title')"
    by (simp add: parse_filmix_response_find)
qed

text \<open>
  Scenario E of the specification (ratios 45 and 20), the boundary (29 is passed over, 30
  is taken although 90 follows), and a listing where nothing qualifies.
\<close>

theorem first_match_at_threshold_witness:
  "parse_filmix_response ratio_lib
     [\<lparr>data_id = Some ''11'', name_text = Some ''r45''\<rparr>,
      \<lparr>data_id = Some ''12'', name_text = Some ''r20''\<rparr>] [] (PStr ''venom'')
     = Inr [''https://filmix.date/play/11'']
   \<and> parse_filmix_response ratio_lib
     ([\<lparr>data_id = Some ''21'', name_text = Some ''r29''\<rparr>]
      @ \<lparr>data_id = Some ''22'', name_text = Some ''r30''\<rparr>
      # [\<lparr>data_id = Some ''23'', name_text = Some ''r90''\<rparr>]) [] (PStr ''venom'')
     = Inr [''https://filmix.date/play/22'']
   \<and> parse_filmix_response ratio_lib
     [\<lparr>data_id = Some ''31'', name_text = Some ''r29''\<rparr>,
      \<lparr>data_id = None, name_text = Some ''r90''\<rparr>] [''x''] (PStr ''venom'')
     = Inr [''x'']"
proof -
  have q: "qualifies ratio_lib ''venom'' \<lparr>data_id = Some ''11'', name_text = Some ''r45''\<rparr>"
      "qualifies ratio_lib ''venom'' \<lparr>data_id = Some ''22'', name_text = Some ''r30''\<rparr>"
      "\<not> qualifies ratio_lib ''venom'' \<lparr>data_id = Some ''21'', name_text = Some ''r29''\<rparr>"
      "\<not> qualifies ratio_lib ''venom'' \<lparr>data_id = Some ''31'', name_text = Some ''r29''\<rparr>"
      "\<not> qualifies ratio_lib ''venom'' \<lparr>data_id = None, name_text = Some ''r90''\<rparr>"
    by (simp_all add: qualifies_def ratio_lib_def)
  show ?thesis
    using q
      first_match_at_threshold [where lib = ratio_lib and movie_title = "''venom''"
        and links = "[]" and pre = "[]"
        and a = "\<lparr>data_id = Some ''11'', name_text = Some ''r45''\<rparr>"
        and post = "[\<lparr>data_id = Some ''12'', name_text = Some ''r20''\<rparr>]"]
      first_match_at_threshold [where lib = ratio_lib and movie_title = "''venom''"
        and links = "[]" and pre = "[\<lparr>data_id = Some ''21'', name_text = Some ''r29''\<rparr>]"
        and a = "\<lparr>data_id = Some ''22'', name_text = Some ''r30''\<rparr>"
        and post = "[\<lparr>data_id = Some ''23'', name_text = Some ''r90''\<rparr>]"]
      first_match_at_threshold [where lib = ratio_lib and movie_title = "''venom''"
        and links = "[''x'']"
        and articles = "[\<lparr>data_id = Some ''31'', name_text = Some ''r29''\<rparr>,
            \<lparr>data_id = None, name_text = Some ''r90''\<rparr>]"]
    by (simp add: filmix_link_def MOVIE_FILMIX_URL_def)
qed

section \<open>The request to the secondary source\<close>

text \<open>
  C8 says that the search sent to the secondary source is keyed on the film's title and
  its release year. In the code \<open>movie_year\<close> is read from \<open>nameRu\<close> (else \<open>nameEn\<close>),
  not from \<open>year\<close>: for the film "Venom" of 2018 the search term is "Venom Venom" and both
  year bounds are "Venom"; the year 2018 is not in the request.
\<close>

theorem filmix_request_omits_year:
  "fst (fetch_movie_links sample_searcher sample_lib
          [(''nameRu'', PStr ''Venom''), (''nameEn'', PStr ''Venom''), (''year'', PStr ''2018'')]
          (FilmixPage 200 []))
     = [HttpPost ''https://filmix.date/engine/ajax/sphinx_search.php''
          (''scf=fx&story=Venom Venom&search_start=0&do=search&subaction=search''
           @ ''&years_ot=Venom&years_do=Venom&kpi_ot=1&kpi_do=10&imdb_ot=1&imdb_do=10''
           @ ''&sort_name=&undefined=asc&sort_date=&sort_favorite=&simple=1'')]"
  by (simp add: fetch_movie_links_def try_add_filmix_link_def filmix_payload_def
      dict_get_def sample_searcher_def FILMIX_SEARCH_URL_def Let_def)

section \<open>Statistics\<close>

lemma count_named:
  "n \<noteq> PNone \<Longrightarrow>
     length (filter (\<lambda>r. sh_user_id r = t \<and> sh_film_name r \<noteq> PNone
                       \<and> sh_film_name r = n \<and> sh_film_year r = y) xs)
     = length (filter (\<lambda>r. sh_user_id r = t \<and> sh_film_name r = n \<and> sh_film_year r = y) xs)"
  by (induction xs) auto

lemma in_get_user_stats:
  "s \<in> set (get_user_stats session telegram_id) \<longleftrightarrow>
     (\<exists>r \<in> set (search_history session).
        sh_user_id r = telegram_id \<and> sh_film_name r \<noteq> PNone
        \<and> s = (sh_film_name r, sh_film_year r,
               user_film_count session telegram_id (sh_film_name r) (sh_film_year r)))"
  unfolding get_user_stats_def Let_def user_film_count_def
  by (force simp add: count_named image_iff)

lemma distinct_keys_get_user_stats:
  "distinct (map stat_key (get_user_stats session telegram_id))"
proof -
  define rows where "rows = filter (\<lambda>r. sh_user_id r = telegram_id \<and> sh_film_name r \<noteq> PNone)
      (search_history session)"
  define keys where "keys = remdups (map (\<lambda>r. (sh_film_name r, sh_film_year r)) rows)"
  define groups where "groups = map (\<lambda>(n, y). (n, y,
      length (filter (\<lambda>r. sh_film_name r = n \<and> sh_film_year r = y) rows))) keys"
  have g: "get_user_stats session telegram_id = sort_key (\<lambda>(n, y, c). - int c) groups"
    by (simp add: get_user_stats_def rows_def keys_def groups_def Let_def)
  have "map stat_key groups = keys"
    by (simp add: groups_def stat_key_def case_prod_beta comp_def)
  then have d: "distinct (map stat_key groups)" by (simp add: keys_def)
  have "mset (map stat_key (get_user_stats session telegram_id)) = mset (map stat_key groups)"
    by (simp add: g)
  then show ?thesis using d by (metis mset_eq_imp_distinct_iff)
qed

lemma sorted_get_user_stats:
  "sorted_wrt (\<lambda>a b. stat_count a \<ge> stat_count b) (get_user_stats session telegram_id)"
proof -
  have "sorted (map (\<lambda>(n, y, c). - int c) (get_user_stats session telegram_id))"
    unfolding get_user_stats_def Let_def by (rule sorted_sort_key)
  then have "sorted_wrt (\<lambda>a b. (case a of (n, y, c) \<Rightarrow> - int c) \<le> (case b of (n, y, c) \<Rightarrow> - int c))
      (get_user_stats session telegram_id)"
    by (simp add: sorted_map)
  then show ?thesis
    by (rule sorted_wrt_mono_rel [rotated]) (auto simp add: stat_count_def)
qed

lemma count_pos:
  assumes "r \<in> set (search_history session)" "sh_user_id r = telegram_id"
  shows "1 \<le> user_film_count session telegram_id (sh_film_name r) (sh_film_year r)"
proof -
  have "r \<in> set (filter (\<lambda>r'. sh_user_id r' = telegram_id \<and> sh_film_name r' = sh_film_name r
          \<and> sh_film_year r' = sh_film_year r) (search_history session))"
    using assms by simp
  then have "0 < length (filter (\<lambda>r'. sh_user_id r' = telegram_id \<and> sh_film_name r' = sh_film_name r
          \<and> sh_film_year r' = sh_film_year r) (search_history session))"
    by (metis length_pos_if_in_set)
  then show ?thesis unfolding user_film_count_def by linarith
qed

text \<open>
  C9. For every user and every content of the history table, the statistics query returns
  one row per pair (film name, film year) found in the user's records whose film name is
  not null, and no other row: every row has a non-null name, its count is the number of
  that user's records with this name and year and is at least 1, every such record has
  its row, no pair occurs twice, and the rows are in descending order of count.
\<close>

theorem stats_aggregation:
  "(\<forall>s \<in> set (get_user_stats session telegram_id).
      fst (stat_key s) \<noteq> PNone
      \<and> stat_count s = user_film_count session telegram_id (fst (stat_key s)) (snd (stat_key s))
      \<and> 1 \<le> stat_count s)
   \<and> (\<forall>r \<in> set (search_history session).
        sh_user_id r = telegram_id \<and> sh_film_name r \<noteq> PNone \<longrightarrow>
        (sh_film_name r, sh_film_year r, user_film_count session telegram_id
           (sh_film_name r) (sh_film_year r)) \<in> set (get_user_stats session telegram_id))
   \<and> distinct (map stat_key (get_user_stats session telegram_id))
   \<and> sorted_wrt (\<lambda>a b. stat_count a \<ge> stat_count b) (get_user_stats session telegram_id)"
proof (intro conjI ballI impI)
  fix s assume "s \<in> set (get_user_stats session telegram_id)"
  then obtain r where r: "r \<in> set (search_history session)" "sh_user_id r = telegram_id"
      "sh_film_name r \<noteq> PNone"
      "s = (sh_film_name r, sh_film_year r,
            user_film_count session telegram_id (sh_film_name r) (sh_film_year r))"
    unfolding in_get_user_stats by auto
  show "fst (stat_key s) \<noteq> PNone" using r by (simp add: stat_key_def)
  show "stat_count s = user_film_count session telegram_id (fst (stat_key s)) (snd (stat_key s))"
    using r by (simp add: stat_key_def stat_count_def)
  show "1 \<le> stat_count s" using r count_pos [of r session telegram_id]
    by (simp add: stat_count_def)
next
  fix r assume "r \<in> set (search_history session)"
    and "sh_user_id r = telegram_id \<and> sh_film_name r \<noteq> PNone"
  then show "(sh_film_name r, sh_film_year r, user_film_count session telegram_id
           (sh_film_name r) (sh_film_year r)) \<in> set (get_user_stats session telegram_id)"
    unfolding in_get_user_stats by auto
next
  show "distinct (map stat_key (get_user_stats session telegram_id))"
    by (rule distinct_keys_get_user_stats)
next
  show "sorted_wrt (\<lambda>a b. stat_count a \<ge> stat_count b) (get_user_stats session telegram_id)"
    by (rule sorted_get_user_stats)
qed

theorem stats_aggregation_witness:
  "get_user_stats stats_session 7 =
     [(PStr ''B'', PStr ''2002'', 3), (PStr ''A'', PStr ''2001'', 1), (PStr ''B'', PStr ''1999'', 1)]
   \<and> user_film_count stats_session 7 (PStr ''B'') (PStr ''2002'') = 3
   \<and> sorted_wrt (\<lambda>a b. stat_count a \<ge> stat_count b) (get_user_stats stats_session 7)
   \<and> distinct (map stat_key (get_user_stats stats_session 7))"
proof -
  have v: "get_user_stats stats_session 7 =
     [(PStr ''B'', PStr ''2002'', 3), (PStr ''A'', PStr ''2001'', 1), (PStr ''B'', PStr ''1999'', 1)]"
    by (simp add: get_user_stats_def stats_session_def)
  have "(PStr ''B'', PStr ''2002'', 3) \<in> set (get_user_stats stats_session 7)"
    by (simp add: v)
  then have "stat_count (PStr ''B'', PStr ''2002'', 3)
      = user_film_count stats_session 7 (fst (stat_key (PStr ''B'', PStr ''2002'', 3)))
          (snd (stat_key (PStr ''B'', PStr ''2002'', 3)))"
    using stats_aggregation [of stats_session 7] by blast
  then have "user_film_count stats_session 7 (PStr ''B'') (PStr ''2002'') = 3"
    by (simp add: stat_count_def stat_key_def)
  then show ?thesis
    using v stats_aggregation [of stats_session 7] by blast
qed

section \<open>History writes of a search\<close>

text \<open>
  Whenever the search handler runs to its end, it has appended two rows for the user and
  the stripped query: the one written by the render of page 0, then the one with null
  name and year written by the handler; and a navigation event that runs to its end has
  appended one row for the stored query.
\<close>

lemma unpack3_error:
  "length (codepoints s) \<noteq> 3 \<Longrightarrow> unpack3 (ErrorText (PStr s)) = Inl ValueError"
  by (auto simp add: unpack3_def split: list.splits)

lemma film_not_found_length: "length (codepoints FILM_NOT_FOUND) = 16"
  by (simp add: FILM_NOT_FOUND_def is_cont_def)

lemma show_search_page_error_candidate:
  assumes "data_film_info (ctx w) = Some [[(''error'', PStr FILM_NOT_FOUND)]]"
  shows "show_search_page searcher lib reply now is_callback user_id w =
     (w\<lparr>ctx := (ctx w)\<lparr>data_page := Some 0\<rparr>\<rparr>, Some ValueError)"
  using assms
  by (simp add: show_search_page_def get_film_caption_def dict_has_def dict_get_def
      unpack3_error film_not_found_length Let_def)

lemma not_found_search_general:
  "movie_search_handler searcher lib
     (Inr \<lparr>status = 200, json_body = JsonObject (Some [])\<rparr>) retry_resp reply
     now_page now_handler user_id (Some txt) w =
   (w\<lparr>net := net w @ [HttpGet BASE_KINOPOISKAPI_URL (strip lib txt)],
      ctx := (ctx w)\<lparr>fsm_state := Some PS_search, data_page := Some 0,
                      data_query := Some (strip lib txt),
                      data_film_info := Some [[(''error'', PStr FILM_NOT_FOUND)]]\<rparr>\<rparr>,
    Some ValueError)"
  by (simp add: movie_search_handler_def fetch_movies_ok films_result_def not_found_def
      show_search_page_error_candidate Let_def)

lemma show_search_page_records:
  assumes "snd (show_search_page searcher lib reply now is_callback user_id w) = None"
  shows "\<exists>n y. search_history (db (fst (show_search_page searcher lib reply now is_callback
             user_id w)))
       = search_history (db w) @
           [\<lparr>sh_user_id = user_id,
             sh_query = (case data_query (ctx w) of None \<Rightarrow> [] | Some q \<Rightarrow> q),
             sh_film_name = n, sh_film_year = y, sh_timestamp = now\<rparr>]"
  using assms
  by (auto simp add: show_search_page_def add_search_def Let_def
      split: prod.splits sum.splits if_splits)


lemma movie_search_handler_records:
  assumes "snd (movie_search_handler searcher lib resp retry_resp reply now_page now_handler
                  user_id (Some txt) w) = None"
  shows "\<exists>n y. search_history (db (fst (movie_search_handler searcher lib resp retry_resp reply
             now_page now_handler user_id (Some txt) w)))
       = search_history (db w) @
           [\<lparr>sh_user_id = user_id, sh_query = strip lib txt,
             sh_film_name = n, sh_film_year = y, sh_timestamp = now_page\<rparr>,
            \<lparr>sh_user_id = user_id, sh_query = strip lib txt,
             sh_film_name = PNone, sh_film_year = PNone, sh_timestamp = now_handler\<rparr>]"
proof -
  obtain ev fetched where f: "fetch_movies searcher (strip lib txt) resp retry_resp = (ev, fetched)"
    by (cases "fetch_movies searcher (strip lib txt) resp retry_resp")
  define film_info where "film_info =
     (case fetched of
        Inr films \<Rightarrow> films
      | Inl e \<Rightarrow>
          if e = ClientError \<or> e = TimeoutError
          then [[(''error'', PStr REQUEST_FAILED)]]
          else if e = ValueError then [[(''error'', PStr BAD_REQUEST_DATA)]]
          else [[(''error'', PStr UNKNOWN_ERROR)]])"
  define w1 where "w1 = w\<lparr>net := net w @ ev,
      ctx := (ctx w)\<lparr>fsm_state := Some PS_search, data_page := Some 0,
                      data_query := Some (strip lib txt),
                      data_film_info := Some film_info\<rparr>\<rparr>"
  obtain w2 raised where s: "show_search_page searcher lib reply now_page False user_id w1
      = (w2, raised)"
    by (cases "show_search_page searcher lib reply now_page False user_id w1")
  have h: "movie_search_handler searcher lib resp retry_resp reply now_page now_handler
      user_id (Some txt) w =
      (case raised of
         Some e \<Rightarrow> (w2, Some e)
       | None \<Rightarrow> (w2\<lparr>db := add_search (db w2) now_handler user_id (strip lib txt) PNone PNone\<rparr>,
                  None))"
    by (simp add: movie_search_handler_def f s film_info_def [symmetric] w1_def [symmetric] Let_def)
  have r: "raised = None" using assms h by (cases raised) simp_all
  have "snd (show_search_page searcher lib reply now_page False user_id w1) = None"
    using s r by simp
  from show_search_page_records [OF this] obtain n y where
    "search_history (db w2) = search_history (db w1) @
       [\<lparr>sh_user_id = user_id, sh_query = strip lib txt,
         sh_film_name = n, sh_film_year = y, sh_timestamp = now_page\<rparr>]"
    using s by (auto simp add: w1_def)
  then show ?thesis using h r by (auto simp add: add_search_def w1_def Let_def)
qed

lemma search_navigation_records:
  assumes "snd (search_next_page searcher lib reply now user_id w) = None"
    and "snd (search_prev_page searcher lib reply' now' user_id w) = None"
  shows "(\<exists>n y. search_history (db (fst (search_next_page searcher lib reply now user_id w)))
       = search_history (db w) @
           [\<lparr>sh_user_id = user_id,
             sh_query = (case data_query (ctx w) of None \<Rightarrow> [] | Some q \<Rightarrow> q),
             sh_film_name = n, sh_film_year = y, sh_timestamp = now\<rparr>])
    \<and> (\<exists>n y. search_history (db (fst (search_prev_page searcher lib reply' now' user_id w)))
       = search_history (db w) @
           [\<lparr>sh_user_id = user_id,
             sh_query = (case data_query (ctx w) of None \<Rightarrow> [] | Some q \<Rightarrow> q),
             sh_film_name = n, sh_film_year = y, sh_timestamp = now'\<rparr>])"
  using assms
    show_search_page_records [of searcher lib reply now True user_id
      "w\<lparr>ctx := (ctx w)\<lparr>data_page := Some ((case data_page (ctx w) of None \<Rightarrow> 0 | Some p \<Rightarrow> p) + 1)\<rparr>\<rparr>"]
    show_search_page_records [of searcher lib reply' now' True user_id
      "w\<lparr>ctx := (ctx w)\<lparr>data_page := Some (max 0 ((case data_page (ctx w) of None \<Rightarrow> 0 | Some p \<Rightarrow> p) - 1))\<rparr>\<rparr>"]
  by (simp add: search_next_page_def search_prev_page_def Let_def)

lemma found_search_example:
  "snd (movie_search_handler sample_searcher sample_lib
          (Inr \<lparr>status = 200, json_body = JsonObject (Some sample_films)\<rparr>) (Inl OtherError)
          (FilmixPage 200 []) 10 11 7 (Some ''venom'')
          \<lparr>ctx = sample_state, db = \<lparr>users = [], search_history = []\<rparr>, sent = [], net = []\<rparr>)
     = None
   \<and> search_history (db (fst (movie_search_handler sample_searcher sample_lib
          (Inr \<lparr>status = 200, json_body = JsonObject (Some sample_films)\<rparr>) (Inl OtherError)
          (FilmixPage 200 []) 10 11 7 (Some ''venom'')
          \<lparr>ctx = sample_state, db = \<lparr>users = [], search_history = []\<rparr>, sent = [], net = []\<rparr>)))
     = [\<lparr>sh_user_id = 7, sh_query = ''venom'', sh_film_name = PStr ''Venom'',
         sh_film_year = PStr ''2018'', sh_timestamp = 10\<rparr>,
        \<lparr>sh_user_id = 7, sh_query = ''venom'', sh_film_name = PNone,
         sh_film_year = PNone, sh_timestamp = 11\<rparr>]"
  by (simp add: movie_search_handler_def fetch_movies_ok films_result_def sample_films_def
      py_slice_to_def sample_searcher_def sample_lib_def show_search_page_def
      get_film_caption_def fetch_movie_links_def dict_has_def dict_get_def unpack3_def
      add_search_def Let_def)

text \<open>
  C10 says that every free-text search message appends two rows. For a query the provider
  has no film for, the lookup returns the error candidate; \<open>get_film_caption\<close> returns
  its message alone, a string of sixteen characters, and unpacking it into caption, name
  and year raises \<open>ValueError\<close> in \<open>show_search_page\<close>, after the page was stored and
  before anything is sent or written. The handler ends there: nothing is sent to the
  user and no row is appended.
\<close>

theorem not_found_search_is_not_recorded:
  "snd (movie_search_handler sample_searcher sample_lib
          (Inr \<lparr>status = 200, json_body = JsonObject (Some [])\<rparr>) (Inl OtherError)
          (FilmixPage 200 []) 10 11 7 (Some ''qwerty'')
          \<lparr>ctx = sample_state, db = sample_session, sent = [], net = []\<rparr>)
     = Some ValueError
   \<and> db (fst (movie_search_handler sample_searcher sample_lib
          (Inr \<lparr>status = 200, json_body = JsonObject (Some [])\<rparr>) (Inl OtherError)
          (FilmixPage 200 []) 10 11 7 (Some ''qwerty'')
          \<lparr>ctx = sample_state, db = sample_session, sent = [], net = []\<rparr>))
     = sample_session
   \<and> sent (fst (movie_search_handler sample_searcher sample_lib
          (Inr \<lparr>status = 200, json_body = JsonObject (Some [])\<rparr>) (Inl OtherError)
          (FilmixPage 200 []) 10 11 7 (Some ''qwerty'')
          \<lparr>ctx = sample_state, db = sample_session, sent = [], net = []\<rparr>))
     = []
   \<and> data_film_info (ctx (fst (movie_search_handler sample_searcher sample_lib
          (Inr \<lparr>status = 200, json_body = JsonObject (Some [])\<rparr>) (Inl OtherError)
          (FilmixPage 200 []) 10 11 7 (Some ''qwerty'')
          \<lparr>ctx = sample_state, db = sample_session, sent = [], net = []\<rparr>)))
     = Some [[(''error'', PStr FILM_NOT_FOUND)]]"
  by (simp add: not_found_search_general)

end
